theory Spec2Isabelle
  imports Main "HOL-Library.Word"
begin

section \<open>Operator registration: the data the file works on\<close>

text \<open>
  This theory embeds \<^verbatim>\<open>aten/src/ATen/core/op_registration/op_registration.cpp\<close>:
  the legacy batch registrar \<^verbatim>\<open>RegisterOperators\<close> and the registration session
  \<^verbatim>\<open>Library\<close>. A C++ member \<^verbatim>\<open>x_\<close> is written with the prefix of its class, since a
  constant of HOL cannot end in an underscore: \<^verbatim>\<open>kind_\<close> of \<^verbatim>\<open>Library\<close> is \<open>lib_kind\<close>,
  \<^verbatim>\<open>dispatch_key_\<close> of \<^verbatim>\<open>CppFunction\<close> is \<open>fn_dispatch_key\<close>, \<^verbatim>\<open>registrars_\<close> of
  \<^verbatim>\<open>RegisterOperators\<close> is \<open>op_registrars\<close>, and the private member functions lose their
  trailing underscore. \<^verbatim>\<open>Library::_def\<close>, \<^verbatim>\<open>_impl\<close> and \<^verbatim>\<open>_fallback\<close> are \<open>Library_def\<close>
  (\<open>Library_def_kernel\<close> for the overload that takes a kernel), \<open>Library_impl\<close> and
  \<open>Library_fallback\<close>; the constructor is \<open>Library_Library\<close>.
\<close>

subsection \<open>Types declared outside the file\<close>

text \<open>
  Modelled from the spec: the dispatch key, an enumerated tag for a backend with a
  distinguished catch-all value. The enumeration itself is declared outside the file; the
  file only compares keys and names \<^verbatim>\<open>DispatchKey::CatchAll\<close>.
\<close>

datatype DispatchKey = CatchAll | Backend nat

text \<open>
  Modelled from the spec: the alias-analysis mode of a schema. The file names
  \<^verbatim>\<open>CONSERVATIVE\<close> and \<^verbatim>\<open>FROM_SCHEMA\<close>.
\<close>

datatype AliasAnalysisKind = INTERNAL_SPECIAL_CASE | CONSERVATIVE | FROM_SCHEMA | PURE_FUNCTION

text \<open>
  Modelled from the spec: the operator name. The file builds it from two strings
  (\<^verbatim>\<open>OperatorName("", "")\<close>) and reads \<^verbatim>\<open>name\<close> and \<^verbatim>\<open>overload_name\<close>; the namespace is
  embedded in \<open>name\<close> as the text before the first \<^verbatim>\<open>::\<close>, as in \<^verbatim>\<open>mylib::add\<close>.
\<close>

record OperatorName =
  name :: string
  overload_name :: string

fun find_colons :: "string \<Rightarrow> nat option" where
  "find_colons (a # b # cs) =
     (if a = CHR '':'' \<and> b = CHR '':'' then Some 0 else map_option Suc (find_colons (b # cs)))"
| "find_colons _ = None"

text \<open>Modelled from the spec: query of the embedded namespace.\<close>

definition getNamespace :: "OperatorName \<Rightarrow> string option" where
  "getNamespace opn = map_option (\<lambda>pos. take pos (name opn)) (find_colons (name opn))"

text \<open>
  Modelled from the spec: inject the namespace if unset. The result pairs the \<^verbatim>\<open>bool\<close> the
  C++ returns with the operator name after the call. The file hands it \<^verbatim>\<open>ns_->c_str()\<close>,
  which ends at the first NUL character; the model hands it the whole namespace, which
  is the same text for every namespace without a NUL character.
\<close>

definition setNamespaceIfNotSet :: "string \<Rightarrow> OperatorName \<Rightarrow> bool \<times> OperatorName" where
  "setNamespaceIfNotSet ns opn =
     (if getNamespace opn = None then (True, opn\<lparr>name := ns @ ''::'' @ name opn\<rparr>)
      else (False, opn))"

text \<open>
  Modelled from the spec: the schema descriptor, with the accessors the file calls. An
  argument or return descriptor is kept as its text.
\<close>

type_synonym Argument = string

record FunctionSchema =
  operator_name :: OperatorName
  arguments :: "Argument list"
  returns :: "Argument list"
  is_vararg :: bool
  is_varret :: bool
  aliasAnalysis :: "AliasAnalysisKind option"

text \<open>The six-argument constructor used at lines 60 and (through \<^verbatim>\<open>cloneWithName\<close>) 249.\<close>

definition FunctionSchema_new ::
  "string \<Rightarrow> string \<Rightarrow> Argument list \<Rightarrow> Argument list \<Rightarrow> bool \<Rightarrow> bool \<Rightarrow> FunctionSchema" where
  "FunctionSchema_new nm ovl args rets va vr =
     \<lparr>operator_name = \<lparr>name = nm, overload_name = ovl\<rparr>, arguments = args, returns = rets,
      is_vararg = va, is_varret = vr, aliasAnalysis = None\<rparr>"

definition cloneWithName :: "string \<Rightarrow> string \<Rightarrow> FunctionSchema \<Rightarrow> FunctionSchema" where
  "cloneWithName nm ovl s =
     FunctionSchema_new nm ovl (arguments s) (returns s) (is_vararg s) (is_varret s)"

definition setAliasAnalysis :: "AliasAnalysisKind \<Rightarrow> FunctionSchema \<Rightarrow> FunctionSchema" where
  "setAliasAnalysis v s = s\<lparr>aliasAnalysis := Some v\<rparr>"

definition schema_getNamespace :: "FunctionSchema \<Rightarrow> string option" where
  "schema_getNamespace s = getNamespace (operator_name s)"

definition schema_setNamespaceIfNotSet :: "string \<Rightarrow> FunctionSchema \<Rightarrow> bool \<times> FunctionSchema" where
  "schema_setNamespaceIfNotSet ns s =
     (case setNamespaceIfNotSet ns (operator_name s) of
        (b, opn) \<Rightarrow> (b, s\<lparr>operator_name := opn\<rparr>))"

text \<open>Modelled from the spec: the callable of a kernel, opaque to the file.\<close>

datatype KernelFunction = KernelFunction nat

subsection \<open>Errors and outcomes\<close>

text \<open>The kind of a session (\<^verbatim>\<open>Library::Kind\<close>).\<close>

datatype Kind = DEF | IMPL | FRAGMENT

text \<open>
  A message is the list of the pieces handed to \<^verbatim>\<open>c10::str\<close>; values whose rendering is
  decided outside the file stay unrendered.
\<close>

datatype msg_part =
    Txt string
  | ShowOperatorName OperatorName
  | ShowSchema FunctionSchema
  | ShowKey DispatchKey
  | ShowKind Kind

text \<open>
  \<open>Error\<close> is a failed \<^verbatim>\<open>TORCH_CHECK\<close> (a configuration error), \<open>InternalAssert\<close> a failed
  \<^verbatim>\<open>TORCH_INTERNAL_ASSERT\<close> (an internal invariant violation). \<open>SyntaxError\<close> comes from the
  name parser and the three conflicts from the dispatcher.
\<close>

datatype error =
    Error "msg_part list"
  | InternalAssert "msg_part list"
  | SyntaxError string
  | LibraryConflict string
  | DefConflict OperatorName
  | ImplConflict OperatorName "DispatchKey option"

text \<open>
  Places where the file reads through an optional (or the right side of an either) with
  no check made before: the C++ has no defined result there, so the model stops with the
  place.
\<close>

datatype fault =
    Deref_ns_registerLibrary
  | Deref_ns_compare
  | Deref_ns_inject
  | SchemaOrName_not_right

datatype 'a result = Ok 'a | Raise error | Fault fault

text \<open>
  The outcome of a call that works on a state: it returns a value, or throws with the
  state as it is when the exception leaves the call, or stops at a fault.
\<close>

datatype ('v, 's) outcome = Returns 'v 's | Throws error 's | Faults fault

subsection \<open>The dispatcher\<close>

text \<open>
  Modelled from the spec: the central registry. It holds the reserved namespaces, the
  defined schemas, the bound kernels and the fallbacks; the debug text is accepted and not
  kept. Reserving a reserved namespace, defining a defined operator and binding a kernel
  to an (operator, dispatch key) pair that has one are conflicts; a fallback registration
  has no failure case. A handle names the one registration it undoes.
\<close>

record Dispatcher =
  libraries :: "string list"
  defs :: "FunctionSchema list"
  impls :: "(OperatorName \<times> DispatchKey option \<times> KernelFunction) list"
  fallbacks :: "(DispatchKey \<times> KernelFunction) list"

datatype RegistrationHandleRAII =
    LibraryHandle string
  | DefHandle OperatorName
  | ImplHandle OperatorName "DispatchKey option"
  | FallbackHandle DispatchKey

definition registerLibrary ::
  "string \<Rightarrow> string \<Rightarrow> Dispatcher \<Rightarrow> error + RegistrationHandleRAII \<times> Dispatcher" where
  "registerLibrary ns debug d =
     (if ns \<in> set (libraries d) then Inl (LibraryConflict ns)
      else Inr (LibraryHandle ns, d\<lparr>libraries := libraries d @ [ns]\<rparr>))"

definition registerDef ::
  "FunctionSchema \<Rightarrow> string \<Rightarrow> Dispatcher \<Rightarrow> error + RegistrationHandleRAII \<times> Dispatcher" where
  "registerDef schema debug d =
     (if operator_name schema \<in> operator_name ` set (defs d)
      then Inl (DefConflict (operator_name schema))
      else Inr (DefHandle (operator_name schema), d\<lparr>defs := defs d @ [schema]\<rparr>))"

definition registerImpl ::
  "OperatorName \<Rightarrow> DispatchKey option \<Rightarrow> KernelFunction \<Rightarrow> FunctionSchema option \<Rightarrow> string \<Rightarrow>
     Dispatcher \<Rightarrow> error + RegistrationHandleRAII \<times> Dispatcher" where
  "registerImpl opn k f inferred debug d =
     (if (opn, k) \<in> (\<lambda>(n, key, _). (n, key)) ` set (impls d) then Inl (ImplConflict opn k)
      else Inr (ImplHandle opn k, d\<lparr>impls := impls d @ [(opn, k, f)]\<rparr>))"

definition registerFallback ::
  "DispatchKey \<Rightarrow> KernelFunction \<Rightarrow> string \<Rightarrow> Dispatcher \<Rightarrow>
     error + RegistrationHandleRAII \<times> Dispatcher" where
  "registerFallback k f debug d = Inr (FallbackHandle k, d\<lparr>fallbacks := fallbacks d @ [(k, f)]\<rparr>)"

text \<open>Releasing a handle undoes exactly the registration it stands for.\<close>

fun remove_first :: "('a \<Rightarrow> bool) \<Rightarrow> 'a list \<Rightarrow> 'a list" where
  "remove_first P [] = []"
| "remove_first P (x # xs) = (if P x then xs else x # remove_first P xs)"

fun release :: "RegistrationHandleRAII \<Rightarrow> Dispatcher \<Rightarrow> Dispatcher" where
  "release (LibraryHandle ns) d = d\<lparr>libraries := remove_first (\<lambda>n. n = ns) (libraries d)\<rparr>"
| "release (DefHandle opn) d = d\<lparr>defs := remove_first (\<lambda>s. operator_name s = opn) (defs d)\<rparr>"
| "release (ImplHandle opn k) d =
     d\<lparr>impls := remove_first (\<lambda>(n, key, _). n = opn \<and> key = k) (impls d)\<rparr>"
| "release (FallbackHandle k) d =
     d\<lparr>fallbacks := remove_first (\<lambda>(key, _). key = k) (fallbacks d)\<rparr>"

definition release_all :: "RegistrationHandleRAII list \<Rightarrow> Dispatcher \<Rightarrow> Dispatcher" where
  "release_all hs d = fold release hs d"

section \<open>The batch registrar\<close>

text \<open>
  One kernel of a batch (\<^verbatim>\<open>KernelRegistrationConfig\<close>) and the accumulated configuration
  (\<^verbatim>\<open>Options\<close>); \<^verbatim>\<open>c10::either<OperatorName, FunctionSchema>\<close> is the sum, a name on the
  left and a schema on the right, and a null \<^verbatim>\<open>unique_ptr\<close> is \<open>None\<close>.
\<close>

record KernelRegistrationConfig =
  dispatch_key :: "DispatchKey option"
  func :: KernelFunction
  inferred_function_schema :: "FunctionSchema option"

record Options =
  schemaOrName :: "(OperatorName + FunctionSchema) option"
  kernels :: "KernelRegistrationConfig list"
  aliasAnalysisKind :: "AliasAnalysisKind option"

record RegisterOperators =
  op_registrars :: "RegistrationHandleRAII list"

subsection \<open>Messages\<close>

definition msg_no_schema_or_name :: "msg_part list" where
  "msg_no_schema_or_name =
     [Txt ''In operator registration: Tried to register an operator without specifying a schema or operator name.'']"

definition msg_from_schema_inferred :: "FunctionSchema \<Rightarrow> msg_part list" where
  "msg_from_schema_inferred schema =
     [Txt ''In operator registration: Tried to register operator '', ShowSchema schema,
      Txt '' with AliasAnalysisKind::FROM_SCHEMA, but the schema is inferred.'']"

definition msg_no_kernel_specified :: "OperatorName \<Rightarrow> msg_part list" where
  "msg_no_kernel_specified opName =
     [Txt ''Cannot infer operator schema in registration of operator '', ShowOperatorName opName,
      Txt '' because there is no kernel specified.'']"

definition msg_cannot_infer :: "OperatorName \<Rightarrow> msg_part list" where
  "msg_cannot_infer opName =
     [Txt ''Cannot infer operator schema for this kind of kernel in registration of operator '',
      ShowOperatorName opName,
      Txt ''. Please explicitly specify the operator schema or specify at least one kernel for which we can infer the schema.'']"

definition msg_same_dispatch_key :: "DispatchKey \<Rightarrow> FunctionSchema \<Rightarrow> msg_part list" where
  "msg_same_dispatch_key k schema =
     [Txt ''In operator registration: Tried to register multiple kernels with same dispatch key '',
      ShowKey k, Txt '' for operator schema '', ShowSchema schema]"

definition msg_multiple_catchall :: "FunctionSchema \<Rightarrow> msg_part list" where
  "msg_multiple_catchall schema =
     [Txt ''In operator registration: Tried to register multiple catch-all kernels for operator schema '',
      ShowSchema schema]"

subsection \<open>\<^verbatim>\<open>inferSchemaFromKernels_\<close>\<close>

text \<open>
  The loop over the kernels with its variable \<^verbatim>\<open>inferred_schema\<close>; the \<^verbatim>\<open>break\<close> ends it at
  the first kernel that has an inferred schema.
\<close>

fun inferSchemaFromKernels_loop ::
  "KernelRegistrationConfig list \<Rightarrow> FunctionSchema option \<Rightarrow> FunctionSchema option" where
  "inferSchemaFromKernels_loop [] inferred_schema = inferred_schema"
| "inferSchemaFromKernels_loop (kern # ks) inferred_schema =
     (case inferred_function_schema kern of
        Some s \<Rightarrow>
          (if inferred_schema = None then Some s
           else inferSchemaFromKernels_loop ks inferred_schema)
      | None \<Rightarrow> inferSchemaFromKernels_loop ks inferred_schema)"

definition inferSchemaFromKernels :: "OperatorName \<Rightarrow> Options \<Rightarrow> FunctionSchema result" where
  "inferSchemaFromKernels opName options =
     (if \<not> length (kernels options) > 0 then Raise (Error (msg_no_kernel_specified opName))
      else
        (case inferSchemaFromKernels_loop (kernels options) None of
           None \<Rightarrow> Raise (Error (msg_cannot_infer opName))
         | Some inferred_schema \<Rightarrow> Ok inferred_schema))"

subsection \<open>\<^verbatim>\<open>checkNoDuplicateKernels_\<close>\<close>

text \<open>
  Both messages read \<^verbatim>\<open>options.schemaOrName_->right()\<close>, and only when the check fails.
\<close>

definition raise_with_schema ::
  "(OperatorName + FunctionSchema) option \<Rightarrow> (FunctionSchema \<Rightarrow> msg_part list) \<Rightarrow> unit result" where
  "raise_with_schema son msg =
     (case son of
        Some (Inr schema) \<Rightarrow> Raise (Error (msg schema))
      | _ \<Rightarrow> Fault SchemaOrName_not_right)"

fun checkNoDuplicateKernels_loop ::
  "(OperatorName + FunctionSchema) option \<Rightarrow> KernelRegistrationConfig list \<Rightarrow>
     DispatchKey set \<Rightarrow> bool \<Rightarrow> unit result" where
  "checkNoDuplicateKernels_loop son [] dispatch_keys has_catchall_kernel = Ok ()"
| "checkNoDuplicateKernels_loop son (kern # ks) dispatch_keys has_catchall_kernel =
     (case dispatch_key kern of
        Some k \<Rightarrow>
          (if k \<in> dispatch_keys then raise_with_schema son (msg_same_dispatch_key k)
           else checkNoDuplicateKernels_loop son ks (insert k dispatch_keys) has_catchall_kernel)
      | None \<Rightarrow>
          (if has_catchall_kernel then raise_with_schema son msg_multiple_catchall
           else checkNoDuplicateKernels_loop son ks dispatch_keys True))"

definition checkNoDuplicateKernels :: "Options \<Rightarrow> unit result" where
  "checkNoDuplicateKernels options =
     checkNoDuplicateKernels_loop (schemaOrName options) (kernels options) {} False"

subsection \<open>\<^verbatim>\<open>registerOp_\<close>\<close>

type_synonym op_state = "RegisterOperators \<times> Dispatcher"

fun registerOp_loop ::
  "OperatorName \<Rightarrow> KernelRegistrationConfig list \<Rightarrow> op_state \<Rightarrow> (unit, op_state) outcome" where
  "registerOp_loop op_name [] (ro, d) = Returns () (ro, d)"
| "registerOp_loop op_name (kern # ks) (ro, d) =
     (case registerImpl op_name (dispatch_key kern) (func kern)
             (inferred_function_schema kern) ''registered by RegisterOperators'' d of
        Inl e \<Rightarrow> Throws e (ro, d)
      | Inr (h, d') \<Rightarrow>
          registerOp_loop op_name ks (ro\<lparr>op_registrars := op_registrars ro @ [h]\<rparr>, d'))"

definition registerOp :: "Options \<Rightarrow> op_state \<Rightarrow> (unit, op_state) outcome" where
  "registerOp options st =
     (case st of (ro, d) \<Rightarrow>
      (case schemaOrName options of
         Some (Inr schema0) \<Rightarrow>
           (let schema = (case aliasAnalysisKind options of
                            Some a \<Rightarrow> setAliasAnalysis a schema0
                          | None \<Rightarrow> schema0);
                op_name = operator_name schema
            in case registerDef schema ''registered by RegisterOperators'' d of
                 Inl e \<Rightarrow> Throws e (ro, d)
               | Inr (h, d') \<Rightarrow>
                   registerOp_loop op_name (kernels options)
                     (ro\<lparr>op_registrars := op_registrars ro @ [h]\<rparr>, d'))
       | _ \<Rightarrow> Faults SchemaOrName_not_right))"

subsection \<open>\<^verbatim>\<open>checkSchemaAndRegisterOp_\<close>\<close>

definition checkSchemaAndRegisterOp :: "Options \<Rightarrow> op_state \<Rightarrow> (unit, op_state) outcome" where
  "checkSchemaAndRegisterOp options st =
     (case schemaOrName options of
        None \<Rightarrow> Throws (Error msg_no_schema_or_name) st
      | Some (Inr schema) \<Rightarrow>
          (case checkNoDuplicateKernels options of
             Raise e \<Rightarrow> Throws e st
           | Fault x \<Rightarrow> Faults x
           | Ok _ \<Rightarrow> registerOp options st)
      | Some (Inl opName) \<Rightarrow>
          (case inferSchemaFromKernels opName options of
             Raise e \<Rightarrow> Throws e st
           | Fault x \<Rightarrow> Faults x
           | Ok inferred_schema \<Rightarrow>
               (let schema = FunctionSchema_new (name opName) (overload_name opName)
                               (arguments inferred_schema) (returns inferred_schema)
                               (is_vararg inferred_schema) (is_varret inferred_schema);
                    options' = options\<lparr>schemaOrName := Some (Inr schema)\<rparr>
                in case checkNoDuplicateKernels options' of
                     Raise e \<Rightarrow> Throws e st
                   | Fault x \<Rightarrow> Faults x
                   | Ok _ \<Rightarrow>
                       (if \<not> aliasAnalysisKind options' \<noteq> Some FROM_SCHEMA
                        then Throws (Error (msg_from_schema_inferred schema)) st
                        else registerOp options' st))))"

section \<open>The registration session\<close>

text \<open>
  The printer of \<^verbatim>\<open>Library::Kind\<close> (lines 25 to 38). It is declared in an anonymous
  namespace of the file; the messages below are assembled by \<^verbatim>\<open>c10::str\<close>, which is
  defined elsewhere and does not pick it, so they carry the kind as \<open>ShowKind\<close>.
\<close>

fun kind_str :: "Kind \<Rightarrow> string" where
  "kind_str DEF = ''TORCH_LIBRARY''"
| "kind_str IMPL = ''TORCH_LIBRARY_IMPL''"
| "kind_str FRAGMENT = ''TORCH_LIBRARY_FRAGMENT''"

text \<open>
  \<^verbatim>\<open>CppFunction\<close>: the callable, its inferred schema (a null pointer is \<open>None\<close>), the debug
  text and the dispatch key the caller may have attached. The constructor of lines 144 to
  148 leaves the dispatch key empty.
\<close>

record CppFunction =
  fn_func :: KernelFunction
  fn_schema :: "FunctionSchema option"
  fn_debug :: string
  fn_dispatch_key :: "DispatchKey option"

definition CppFunction_new :: "KernelFunction \<Rightarrow> FunctionSchema option \<Rightarrow> CppFunction" where
  "CppFunction_new f schema =
     \<lparr>fn_func = f, fn_schema = schema, fn_debug = [], fn_dispatch_key = None\<rparr>"

record Library =
  lib_kind :: Kind
  lib_ns :: "string option"
  lib_dispatch_key :: "DispatchKey option"
  lib_file :: string
  lib_line :: "32 word"
  lib_registrars :: "RegistrationHandleRAII list"

type_synonym lib_state = "Library \<times> Dispatcher"

subsection \<open>Debug text and messages\<close>

text \<open>The decimal text of a number, as \<^verbatim>\<open>c10::str\<close> prints the line.\<close>

fun show_nat :: "nat \<Rightarrow> string" where
  "show_nat n =
     (if n < 10 then [char_of (48 + n)]
      else show_nat (n div 10) @ [char_of (48 + n mod 10)])"

declare show_nat.simps [simp del]

text \<open>\<^verbatim>\<open>debugString\<close> (lines 13 to 23), built without \<^verbatim>\<open>STRIP_ERROR_MESSAGES\<close>.\<close>

definition debugString :: "string \<Rightarrow> string \<Rightarrow> 32 word \<Rightarrow> string" where
  "debugString debug file line =
     (if debug = [] then ''registered at '' @ file @ '':'' @ show_nat (unat line)
      else debug)"

definition ERROR_CONTEXT :: "Library \<Rightarrow> msg_part list" where
  "ERROR_CONTEXT lib =
     [Txt ''(Error occurred while processing '', ShowKind (lib_kind lib),
      Txt '' block at '', Txt (lib_file lib), Txt '':'', Txt (show_nat (unat (lib_line lib))),
      Txt '')'']"

definition msg_wildcard_namespace :: "Library \<Rightarrow> msg_part list" where
  "msg_wildcard_namespace lib =
     [ShowKind (lib_kind lib), Txt '': cannot define '', ShowKind (lib_kind lib),
      Txt '' with the wildcard namespace _ (every '', ShowKind (lib_kind lib),
      Txt '' defines operators for a distinct namespace!)Did you mean to use TORCH_LIBRARY_IMPL instead?  '']
     @ ERROR_CONTEXT lib"

definition DEF_PRELUDE :: "FunctionSchema \<Rightarrow> msg_part list" where
  \<open>DEF_PRELUDE schema = [Txt ''def("'', ShowOperatorName (operator_name schema), Txt ''"): '']\<close>

definition msg_def_wrong_block :: "Library \<Rightarrow> FunctionSchema \<Rightarrow> msg_part list" where
  "msg_def_wrong_block lib schema =
     DEF_PRELUDE schema
     @ [Txt ''Cannot define an operator inside of a '', ShowKind (lib_kind lib),
        Txt '' block.  All def()s should be placed in the (unique) TORCH_LIBRARY block for their namespace.  '']
     @ ERROR_CONTEXT lib"

definition msg_def_redundant_namespace :: "Library \<Rightarrow> FunctionSchema \<Rightarrow> string \<Rightarrow> msg_part list" where
  "msg_def_redundant_namespace lib schema ns =
     DEF_PRELUDE schema
     @ [Txt ''Redundant definition of namespace ('', Txt ns,
        Txt '') in both schema and the enclosing '', ShowKind (lib_kind lib),
        Txt '' block.  Delete the namespace from your schema string.  '']
     @ ERROR_CONTEXT lib"

definition msg_def_invalid_namespace :: "Library \<Rightarrow> FunctionSchema \<Rightarrow> string \<Rightarrow> msg_part list" where
  "msg_def_invalid_namespace lib schema ns_opt =
     DEF_PRELUDE schema
     @ [Txt ''Invalid explicit namespace ('', Txt ns_opt,
        Txt '') in schema string.  Move this definition to the (unique) TORCH_LIBRARY block for this namespace and delete the namespace from your schema string.  '']
     @ ERROR_CONTEXT lib"

definition msg_def_no_schema :: "Library \<Rightarrow> OperatorName \<Rightarrow> msg_part list" where
  \<open>msg_def_no_schema lib opn =
     [Txt ''def("'', ShowOperatorName opn,
      Txt ''"): Full schema string was not specified, and we couldn't infer schema either.  '',
      Txt ''Please explicitly provide a schema string.  '']
     @ ERROR_CONTEXT lib\<close>

definition IMPL_PRELUDE :: "string \<Rightarrow> msg_part list" where
  \<open>IMPL_PRELUDE name_str = [Txt ''impl("'', Txt name_str, Txt ''", ...): '']\<close>

definition msg_impl_redundant_namespace :: "Library \<Rightarrow> string \<Rightarrow> string \<Rightarrow> msg_part list" where
  "msg_impl_redundant_namespace lib name_str ns =
     IMPL_PRELUDE name_str
     @ [Txt ''Redundant definition of namespace ('', Txt ns,
        Txt '') in both operator name and the enclosing '', ShowKind (lib_kind lib),
        Txt '' block.  Delete the namespace from your operator name.  '']
     @ ERROR_CONTEXT lib"

definition msg_impl_invalid_namespace :: "Library \<Rightarrow> string \<Rightarrow> string \<Rightarrow> msg_part list" where
  "msg_impl_invalid_namespace lib name_str ns_opt =
     IMPL_PRELUDE name_str
     @ [Txt ''Invalid explicit namespace ('', Txt ns_opt,
        Txt '') in operator name.  Move this definition to '', ShowKind (lib_kind lib),
        Txt '' block for this namespace and delete the explicit namespace from your operator name.  '']
     @ ERROR_CONTEXT lib"

definition msg_impl_inconsistent_key ::
  "Library \<Rightarrow> string \<Rightarrow> DispatchKey \<Rightarrow> DispatchKey \<Rightarrow> msg_part list" where
  "msg_impl_inconsistent_key lib name_str fk lk =
     IMPL_PRELUDE name_str
     @ [Txt ''Explicitly provided dispatch key ('', ShowKey fk,
        Txt '') is inconsistent with the dispatch key of the enclosing '',
        ShowKind (lib_kind lib), Txt '' block ('', ShowKey lk,
        Txt '').  Please declare a separate '', ShowKind (lib_kind lib),
        Txt '' block for this dispatch key and move your impl() there.  '']
     @ ERROR_CONTEXT lib"

definition msg_fallback_wrong_block :: "Library \<Rightarrow> msg_part list" where
  "msg_fallback_wrong_block lib =
     [Txt ''fallback(...): Cannot define an operator inside of a '', ShowKind (lib_kind lib),
      Txt '' block.  Did you mean to call this function inside a TORCH_LIBRARY_IMPL block?  '']
     @ ERROR_CONTEXT lib"

definition msg_fallback_namespace :: "Library \<Rightarrow> string \<Rightarrow> DispatchKey \<Rightarrow> msg_part list" where
  "msg_fallback_namespace lib ns k =
     [Txt ''fallback(...): Fallback functions which apply to only a single namespace '',
      Txt ''(you specified '', Txt ns, Txt '') are not supported.  If you intended to apply '',
      Txt ''this fallback function globally, please define a separate block:\<newline>\<newline>'',
      Txt ''    TORCH_LIBRARY_IMPL(_, '', ShowKey k, Txt '', m) { m.fallback(...); }\<newline>\<newline>'']
     @ ERROR_CONTEXT lib"

subsection \<open>The constructor\<close>

text \<open>
  The body of \<^verbatim>\<open>case FRAGMENT\<close>, which \<^verbatim>\<open>case DEF\<close> falls through to. An exception that
  leaves a constructor destroys the members built so far, so the handles already in
  \<^verbatim>\<open>registrars_\<close> are released.
\<close>

definition Library_case_FRAGMENT :: "Library \<Rightarrow> Dispatcher \<Rightarrow> (Library, Dispatcher) outcome" where
  "Library_case_FRAGMENT lib d =
     (if \<not> lib_ns lib \<noteq> None
      then Throws (Error (msg_wildcard_namespace lib)) (release_all (lib_registrars lib) d)
      else if \<not> \<not> lib_dispatch_key lib \<noteq> None
      then Throws (InternalAssert (ERROR_CONTEXT lib)) (release_all (lib_registrars lib) d)
      else Returns lib d)"

definition Library_Library ::
  "Kind \<Rightarrow> string \<Rightarrow> DispatchKey option \<Rightarrow> string \<Rightarrow> 32 word \<Rightarrow> Dispatcher \<Rightarrow>
     (Library, Dispatcher) outcome" where
  "Library_Library kind ns k file line d =
     (let lib = \<lparr>lib_kind = kind,
                 lib_ns = (if ns = ''_'' then None else Some ns),
                 lib_dispatch_key = (if k = None \<or> k = Some CatchAll then None else k),
                 lib_file = file, lib_line = line, lib_registrars = []\<rparr>
      in case kind of
           DEF \<Rightarrow>
             (case lib_ns lib of
                None \<Rightarrow> Faults Deref_ns_registerLibrary
              | Some n \<Rightarrow>
                  (case registerLibrary n (debugString [] file line) d of
                     Inl e \<Rightarrow> Throws e d
                   | Inr (h, d') \<Rightarrow>
                       Library_case_FRAGMENT
                         (lib\<lparr>lib_registrars := lib_registrars lib @ [h]\<rparr>) d'))
         | FRAGMENT \<Rightarrow> Library_case_FRAGMENT lib d
         | IMPL \<Rightarrow> Returns lib d)"

subsection \<open>\<^verbatim>\<open>Library::_def\<close> on a schema\<close>

text \<open>
  The value returned is the operator name the C++ writes through \<^verbatim>\<open>out_name\<close> when the
  pointer is not null.
\<close>

definition Library_def :: "FunctionSchema \<Rightarrow> lib_state \<Rightarrow> (OperatorName, lib_state) outcome" where
  "Library_def schema st =
     (case st of (lib, d) \<Rightarrow>
      if \<not> (lib_kind lib = DEF \<or> lib_kind lib = FRAGMENT)
      then Throws (Error (msg_def_wrong_block lib schema)) st
      else
        (case lib_ns lib of
           None \<Rightarrow> Throws (InternalAssert (ERROR_CONTEXT lib)) st
         | Some ns \<Rightarrow>
             if \<not> \<not> lib_dispatch_key lib \<noteq> None
             then Throws (InternalAssert (ERROR_CONTEXT lib)) st
             else
               (case schema_getNamespace schema of
                  Some ns_opt \<Rightarrow>
                    (if ns_opt = ns
                     then Throws (Error (msg_def_redundant_namespace lib schema ns)) st
                     else Throws (Error (msg_def_invalid_namespace lib schema ns_opt)) st)
                | None \<Rightarrow>
                    (case schema_setNamespaceIfNotSet ns schema of
                       (b, schema') \<Rightarrow>
                         if \<not> b then Throws (InternalAssert (ERROR_CONTEXT lib)) st
                         else
                           (case registerDef schema'
                                   (debugString [] (lib_file lib) (lib_line lib)) d of
                              Inl e \<Rightarrow> Throws e st
                            | Inr (h, d') \<Rightarrow>
                                Returns (operator_name schema')
                                  (lib\<lparr>lib_registrars := lib_registrars lib @ [h]\<rparr>, d'))))))"

subsection \<open>\<^verbatim>\<open>Library::_def\<close> on a name or schema and a kernel\<close>

definition Library_def_kernel ::
  "OperatorName + FunctionSchema \<Rightarrow> CppFunction \<Rightarrow> lib_state \<Rightarrow> (unit, lib_state) outcome" where
  "Library_def_kernel name_or_schema f st =
     (case st of (lib, d) \<Rightarrow>
      (case (case name_or_schema of
               Inr s \<Rightarrow> Ok s
             | Inl opn \<Rightarrow>
                 (case fn_schema f of
                    None \<Rightarrow> Raise (Error (msg_def_no_schema lib opn))
                  | Some fs \<Rightarrow>
                      Ok (setAliasAnalysis CONSERVATIVE
                            (cloneWithName (name opn) (overload_name opn) fs)))) of
         Raise e \<Rightarrow> Throws e st
       | Fault x \<Rightarrow> Faults x
       | Ok schema \<Rightarrow>
           (case Library_def schema st of
              Throws e st' \<Rightarrow> Throws e st'
            | Faults x \<Rightarrow> Faults x
            | Returns opn (lib', d') \<Rightarrow>
                (let dispatch_key' = (if fn_dispatch_key f \<noteq> None then fn_dispatch_key f
                                      else lib_dispatch_key lib')
                 in case registerImpl opn dispatch_key' (fn_func f) (fn_schema f)
                           (debugString (fn_debug f) (lib_file lib') (lib_line lib')) d' of
                      Inl e \<Rightarrow> Throws e (lib', d')
                    | Inr (h, d'') \<Rightarrow>
                        Returns () (lib'\<lparr>lib_registrars := lib_registrars lib' @ [h]\<rparr>, d'')))))"

subsection \<open>\<^verbatim>\<open>Library::_impl\<close>\<close>

text \<open>
  \<^verbatim>\<open>torch::jit::parseName\<close> is outside the file and is a parameter: it gives the operator
  name or throws. Line 278 reads \<^verbatim>\<open>*ns_\<close> in the comparison and line 296 reads
  \<^verbatim>\<open>ns_->c_str()\<close>, neither after a check that the session has a namespace.
\<close>

definition Library_impl ::
  "(string \<Rightarrow> error + OperatorName) \<Rightarrow> string \<Rightarrow> CppFunction \<Rightarrow> lib_state \<Rightarrow>
     (unit, lib_state) outcome" where
  "Library_impl parseName name_str f st =
     (case st of (lib, d) \<Rightarrow>
      (case parseName name_str of
         Inl e \<Rightarrow> Throws e st
       | Inr opn \<Rightarrow>
           (case getNamespace opn of
              Some ns_opt \<Rightarrow>
                (case lib_ns lib of
                   None \<Rightarrow> Faults Deref_ns_compare
                 | Some ns \<Rightarrow>
                     (if ns_opt = ns
                      then Throws (Error (msg_impl_redundant_namespace lib name_str ns)) st
                      else Throws (Error (msg_impl_invalid_namespace lib name_str ns_opt)) st))
            | None \<Rightarrow>
                (case lib_ns lib of
                   None \<Rightarrow> Faults Deref_ns_inject
                 | Some ns \<Rightarrow>
                     (case setNamespaceIfNotSet ns opn of
                        (b, opn') \<Rightarrow>
                          if \<not> b then Throws (InternalAssert (ERROR_CONTEXT lib)) st
                          else
                            (case (fn_dispatch_key f, lib_dispatch_key lib) of
                               (Some fk, Some lk) \<Rightarrow>
                                 Throws (Error (msg_impl_inconsistent_key lib name_str fk lk)) st
                             | _ \<Rightarrow>
                                 (let dispatch_key' =
                                        (if fn_dispatch_key f \<noteq> None then fn_dispatch_key f
                                         else lib_dispatch_key lib)
                                  in case registerImpl opn' dispatch_key' (fn_func f) (fn_schema f)
                                            (debugString (fn_debug f) (lib_file lib) (lib_line lib))
                                            d of
                                       Inl e \<Rightarrow> Throws e st
                                     | Inr (h, d') \<Rightarrow>
                                         Returns ()
                                           (lib\<lparr>lib_registrars := lib_registrars lib @ [h]\<rparr>,
                                            d'))))))))"

subsection \<open>\<^verbatim>\<open>Library::_fallback\<close>\<close>

definition Library_fallback :: "CppFunction \<Rightarrow> lib_state \<Rightarrow> (unit, lib_state) outcome" where
  "Library_fallback f st =
     (case st of (lib, d) \<Rightarrow>
      if \<not> lib_kind lib = IMPL then Throws (Error (msg_fallback_wrong_block lib)) st
      else
        (let dispatch_key' = (if fn_dispatch_key f \<noteq> None then fn_dispatch_key f
                              else lib_dispatch_key lib)
         in case dispatch_key' of
              None \<Rightarrow> Throws (InternalAssert (ERROR_CONTEXT lib)) st
            | Some k \<Rightarrow>
                (case lib_ns lib of
                   Some ns \<Rightarrow> Throws (Error (msg_fallback_namespace lib ns k)) st
                 | None \<Rightarrow>
                     (case registerFallback k (fn_func f)
                             (debugString (fn_debug f) (lib_file lib) (lib_line lib)) d of
                        Inl e \<Rightarrow> Throws e st
                      | Inr (h, d') \<Rightarrow>
                          Returns () (lib\<lparr>lib_registrars := lib_registrars lib @ [h]\<rparr>, d')))))"

section \<open>Example registrations\<close>

text \<open>Concrete values on which the theorems below are evaluated.\<close>

definition empty_Dispatcher :: Dispatcher where
  "empty_Dispatcher = \<lparr>libraries = [], defs = [], impls = [], fallbacks = []\<rparr>"

definition ex_op :: OperatorName where
  "ex_op = \<lparr>name = ''my::op'', overload_name = []\<rparr>"

definition ex_schema :: FunctionSchema where
  "ex_schema = FunctionSchema_new ''my::op'' [] [''int''] [''int''] False False"

definition ex_int_fragment :: FunctionSchema where
  "ex_int_fragment = FunctionSchema_new [] [] [''int''] [''int''] False False"

definition ex_float_fragment :: FunctionSchema where
  "ex_float_fragment = FunctionSchema_new [] [] [''float''] [''float''] False False"

definition ex_kernel ::
  "DispatchKey option \<Rightarrow> FunctionSchema option \<Rightarrow> KernelRegistrationConfig" where
  "ex_kernel k frag =
     \<lparr>dispatch_key = k, func = KernelFunction 0, inferred_function_schema = frag\<rparr>"

definition ex_registrar :: RegisterOperators where
  "ex_registrar = \<lparr>op_registrars = []\<rparr>"

definition ex_inferred_options :: Options where
  "ex_inferred_options =
     \<lparr>schemaOrName = Some (Inl ex_op),
      kernels = [ex_kernel (Some (Backend 1)) None,
                 ex_kernel (Some (Backend 2)) (Some ex_int_fragment),
                 ex_kernel None (Some ex_float_fragment)],
      aliasAnalysisKind = None\<rparr>"

definition ex_library :: "Kind \<Rightarrow> string option \<Rightarrow> DispatchKey option \<Rightarrow> Library" where
  "ex_library kind ns k =
     \<lparr>lib_kind = kind, lib_ns = ns, lib_dispatch_key = k, lib_file = ''ops.cpp'',
      lib_line = 7, lib_registrars = []\<rparr>"

definition ex_fn :: "DispatchKey option \<Rightarrow> FunctionSchema option \<Rightarrow> CppFunction" where
  "ex_fn k frag =
     \<lparr>fn_func = KernelFunction 0, fn_schema = frag, fn_debug = [], fn_dispatch_key = k\<rparr>"

text \<open>A stand-in for the name parser: the text is the name, with no overload name.\<close>

definition ex_parseName :: "string \<Rightarrow> error + OperatorName" where
  "ex_parseName s =
     (if s = [] then Inl (SyntaxError s) else Inr \<lparr>name = s, overload_name = []\<rparr>)"

definition ex_mylib_add :: OperatorName where
  "ex_mylib_add = \<lparr>name = ''mylib::add'', overload_name = []\<rparr>"

definition ex_mylib_add_schema :: FunctionSchema where
  "ex_mylib_add_schema =
     \<lparr>operator_name = ex_mylib_add, arguments = [''int''], returns = [''int''],
      is_vararg = False, is_varret = False, aliasAnalysis = Some CONSERVATIVE\<rparr>"

text \<open>
  A batch for \<^verbatim>\<open>mylib::add\<close> with an explicit schema and two kernels, the second for a
  dispatch key that \<open>ex_bound_Dispatcher\<close> below already holds a kernel for.
\<close>

definition ex_conflict_options :: Options where
  "ex_conflict_options =
     \<lparr>schemaOrName = Some (Inr ex_mylib_add_schema),
      kernels = [ex_kernel (Some (Backend 2)) None, ex_kernel (Some (Backend 1)) None],
      aliasAnalysisKind = None\<rparr>"

text \<open>A dispatcher in which another block has already bound a kernel to \<^verbatim>\<open>mylib::add\<close>.\<close>

definition ex_bound_Dispatcher :: Dispatcher where
  "ex_bound_Dispatcher =
     \<lparr>libraries = [], defs = [],
      impls = [(ex_mylib_add, Some (Backend 1), KernelFunction 5)], fallbacks = []\<rparr>"

section \<open>Facts about the batch registrar and the dispatcher\<close>

lemmas ex_defs = ex_library_def ex_fn_def ex_parseName_def ex_mylib_add_def
  ex_bound_Dispatcher_def ex_mylib_add_schema_def ex_int_fragment_def ex_float_fragment_def
  ex_schema_def ex_op_def ex_kernel_def ex_registrar_def empty_Dispatcher_def
  ex_inferred_options_def ex_conflict_options_def FunctionSchema_new_def

lemma inferSchemaFromKernels_loop_Some [simp]:
  "inferSchemaFromKernels_loop ks (Some s) = Some s"
  by (induction ks) (auto split: option.splits)

lemma inferSchemaFromKernels_loop_none:
  "(\<forall>k \<in> set ks. inferred_function_schema k = None) \<Longrightarrow>
     inferSchemaFromKernels_loop ks None = None"
  by (induction ks) auto

lemma inferSchemaFromKernels_loop_first:
  "(\<forall>p \<in> set pre. inferred_function_schema p = None) \<Longrightarrow>
   inferred_function_schema k = Some frag \<Longrightarrow>
     inferSchemaFromKernels_loop (pre @ k # post) None = Some frag"
  by (induction pre) auto

lemma raise_with_schema_right [simp]:
  "raise_with_schema (Some (Inr schema)) msg = Raise (Error (msg schema))"
  by (simp add: raise_with_schema_def)

text \<open>
  The duplicate check passes exactly when the keys that are present are pairwise distinct
  and new to the set, and at most one kernel (counting the flag) has none.
\<close>

lemma checkNoDuplicateKernels_loop_Ok:
  "checkNoDuplicateKernels_loop son ks seen c = Ok () \<longleftrightarrow>
     distinct (filter (\<lambda>x. x \<noteq> None) (map dispatch_key ks)) \<and>
     (\<forall>k. Some k \<in> set (map dispatch_key ks) \<longrightarrow> k \<notin> seen) \<and>
     length (filter (\<lambda>x. x = None) (map dispatch_key ks)) + (if c then 1 else 0) \<le> 1"
proof (induction ks arbitrary: seen c)
  case Nil
  then show ?case by simp
next
  case (Cons kern ks)
  show ?case
  proof (cases "dispatch_key kern")
    case None
    then show ?thesis using Cons.IH[of seen True]
      by (cases son; auto simp: raise_with_schema_def split: sum.splits)
  next
    case (Some k)
    then show ?thesis using Cons.IH[of "insert k seen" c]
      by (cases son) (auto simp: raise_with_schema_def split: sum.splits)
  qed
qed

lemma checkNoDuplicateKernels_loop_right:
  "checkNoDuplicateKernels_loop (Some (Inr schema)) ks seen c = Ok () \<or>
   (\<exists>msg. checkNoDuplicateKernels_loop (Some (Inr schema)) ks seen c = Raise (Error msg))"
  by (induction ks arbitrary: seen c) (auto split: option.splits)

lemma checkNoDuplicateKernels_son:
  "checkNoDuplicateKernels options = Ok () \<Longrightarrow>
   checkNoDuplicateKernels (options\<lparr>schemaOrName := son\<rparr>) = Ok ()"
  by (simp add: checkNoDuplicateKernels_def checkNoDuplicateKernels_loop_Ok)

lemma registerImpl_cases:
  "registerImpl opn k f frag dbg d = Inl e \<Longrightarrow> e = ImplConflict opn k"
  "registerImpl opn k f frag dbg d = Inr (h, d') \<Longrightarrow>
     h = ImplHandle opn k \<and> d' = d\<lparr>impls := impls d @ [(opn, k, f)]\<rparr>"
  by (auto simp: registerImpl_def split: if_splits)

lemma registerDef_cases:
  "registerDef schema dbg d = Inl e \<Longrightarrow> e = DefConflict (operator_name schema)"
  "registerDef schema dbg d = Inr (h, d') \<Longrightarrow>
     h = DefHandle (operator_name schema) \<and> d' = d\<lparr>defs := defs d @ [schema]\<rparr>"
  by (auto simp: registerDef_def split: if_splits)

lemma registerOp_loop_Returns:
  "registerOp_loop opn ks (ro, d) = Returns v (ro', d') \<Longrightarrow>
     defs d' = defs d \<and>
     op_registrars ro' = op_registrars ro @ map (\<lambda>k. ImplHandle opn (dispatch_key k)) ks"
proof (induction ks arbitrary: ro d)
  case Nil
  then show ?case by simp
next
  case (Cons kern ks)
  then show ?case
    by (auto split: sum.splits dest!: registerImpl_cases(2))
qed

text \<open>
  When a kernel of the loop is refused, the handles of the kernels before it are in the
  list already and the definitions of the dispatcher are those the loop started with.
\<close>

lemma registerOp_loop_Throws:
  "registerOp_loop opn ks (ro, d) = Throws e (ro', d') \<Longrightarrow>
     (\<exists>k hs. e = ImplConflict opn k \<and> op_registrars ro' = op_registrars ro @ hs) \<and>
     defs d' = defs d"
proof (induction ks arbitrary: ro d)
  case Nil
  then show ?case by simp
next
  case (Cons kern ks)
  show ?case
  proof (cases "registerImpl opn (dispatch_key kern) (func kern)
                  (inferred_function_schema kern) ''registered by RegisterOperators'' d")
    case (Inl e')
    with Cons.prems show ?thesis
      by (auto dest: registerImpl_cases(1))
  next
    case (Inr p)
    obtain h d1 where p: "p = (h, d1)" by (cases p)
    from registerImpl_cases(2)[OF Inr[unfolded p]] have d1: "defs d1 = defs d" by simp
    from Cons.prems Inr p
    have "registerOp_loop opn ks (ro\<lparr>op_registrars := op_registrars ro @ [h]\<rparr>, d1)
            = Throws e (ro', d')" by simp
    from Cons.IH[OF this] d1 show ?thesis by auto
  qed
qed

lemma registerOp_Throws:
  assumes "registerOp options (ro, d) = Throws e (ro', d')"
  shows "(ro', d') = (ro, d) \<or>
         (\<exists>opn k hs s. e = ImplConflict opn k \<and>
            op_registrars ro' = op_registrars ro @ DefHandle opn # hs \<and>
            operator_name s = opn \<and> defs d' = defs d @ [s])"
proof -
  from assms obtain schema0 where son: "schemaOrName options = Some (Inr schema0)"
    by (auto simp: registerOp_def split: option.splits sum.splits)
  define schema where "schema = (case aliasAnalysisKind options of
      Some a \<Rightarrow> setAliasAnalysis a schema0 | None \<Rightarrow> schema0)"
  show ?thesis
  proof (cases "registerDef schema ''registered by RegisterOperators'' d")
    case (Inl e')
    with assms son show ?thesis by (simp add: registerOp_def schema_def Let_def)
  next
    case (Inr p)
    obtain h d1 where p: "p = (h, d1)" by (cases p)
    from registerDef_cases(2)[OF Inr[unfolded p]]
    have h: "h = DefHandle (operator_name schema)" and d1: "defs d1 = defs d @ [schema]"
      by simp_all
    from assms son Inr p
    have "registerOp_loop (operator_name schema) (kernels options)
            (ro\<lparr>op_registrars := op_registrars ro @ [h]\<rparr>, d1) = Throws e (ro', d')"
      by (simp add: registerOp_def schema_def Let_def)
    from registerOp_loop_Throws[OF this] h d1 show ?thesis by auto
  qed
qed

lemma registerOp_Returns:
  assumes "registerOp options (ro, d) = Returns v (ro', d')"
      and "schemaOrName options = Some (Inr schema0)"
  shows "defs d' = defs d @ [schema0\<lparr>aliasAnalysis :=
             (case aliasAnalysisKind options of
                Some a \<Rightarrow> Some a | None \<Rightarrow> aliasAnalysis schema0)\<rparr>] \<and>
         op_registrars ro' = op_registrars ro @ DefHandle (operator_name schema0) #
             map (\<lambda>k. ImplHandle (operator_name schema0) (dispatch_key k)) (kernels options)"
proof -
  define schema where "schema = (case aliasAnalysisKind options of
      Some a \<Rightarrow> setAliasAnalysis a schema0 | None \<Rightarrow> schema0)"
  have on: "operator_name schema = operator_name schema0"
    by (simp add: schema_def setAliasAnalysis_def split: option.splits)
  have sch: "schema = schema0\<lparr>aliasAnalysis :=
             (case aliasAnalysisKind options of
                Some a \<Rightarrow> Some a | None \<Rightarrow> aliasAnalysis schema0)\<rparr>"
    by (simp add: schema_def setAliasAnalysis_def split: option.splits)
  show ?thesis
  proof (cases "registerDef schema ''registered by RegisterOperators'' d")
    case (Inl e')
    with assms show ?thesis by (simp add: registerOp_def schema_def Let_def)
  next
    case (Inr p)
    obtain h d1 where p: "p = (h, d1)" by (cases p)
    from registerDef_cases(2)[OF Inr[unfolded p]]
    have h: "h = DefHandle (operator_name schema)" and d1: "d1 = d\<lparr>defs := defs d @ [schema]\<rparr>"
      by simp_all
    from assms Inr p
    have "registerOp_loop (operator_name schema) (kernels options)
            (ro\<lparr>op_registrars := op_registrars ro @ [h]\<rparr>, d1) = Returns v (ro', d')"
      by (simp add: registerOp_def schema_def Let_def)
    from registerOp_loop_Returns[OF this] h d1 on sch show ?thesis by simp
  qed
qed

lemma checkSchemaAndRegisterOp_Throws:
  assumes "checkSchemaAndRegisterOp options (ro, d) = Throws e (ro', d')"
  shows "(ro', d') = (ro, d) \<or>
         (\<exists>opn k hs s. e = ImplConflict opn k \<and>
            op_registrars ro' = op_registrars ro @ DefHandle opn # hs \<and>
            operator_name s = opn \<and> defs d' = defs d @ [s])"
  using assms
  by (auto simp: checkSchemaAndRegisterOp_def Let_def
      split: option.splits sum.splits result.splits if_splits dest!: registerOp_Throws)

text \<open>
  The exact state in which the loop of \<^verbatim>\<open>registerOp_\<close> throws: the kernels before the refused
  one are registered and their handles appended.
\<close>

lemma registerOp_loop_Throws_exact:
  "registerOp_loop opn ks (ro, d) = Throws e (ro', d') \<Longrightarrow>
     \<exists>pre kern post. ks = pre @ kern # post \<and>
       e = ImplConflict opn (dispatch_key kern) \<and>
       ro' = ro\<lparr>op_registrars := op_registrars ro @
                  map (\<lambda>x. ImplHandle opn (dispatch_key x)) pre\<rparr> \<and>
       d' = d\<lparr>impls := impls d @ map (\<lambda>x. (opn, dispatch_key x, func x)) pre\<rparr>"
proof (induction ks arbitrary: ro d)
  case Nil
  then show ?case by simp
next
  case (Cons kern ks)
  show ?case
  proof (cases "registerImpl opn (dispatch_key kern) (func kern)
                  (inferred_function_schema kern) ''registered by RegisterOperators'' d")
    case (Inl e')
    with Cons.prems registerImpl_cases(1)[OF Inl]
    have "kern # ks = [] @ kern # ks \<and> e = ImplConflict opn (dispatch_key kern) \<and>
          ro' = ro\<lparr>op_registrars := op_registrars ro @
                  map (\<lambda>x. ImplHandle opn (dispatch_key x)) []\<rparr> \<and>
          d' = d\<lparr>impls := impls d @ map (\<lambda>x. (opn, dispatch_key x, func x)) []\<rparr>"
      by simp
    then show ?thesis by blast
  next
    case (Inr p)
    obtain h d1 where p: "p = (h, d1)" by (cases p)
    from registerImpl_cases(2)[OF Inr[unfolded p]]
    have h: "h = ImplHandle opn (dispatch_key kern)"
      and d1: "d1 = d\<lparr>impls := impls d @ [(opn, dispatch_key kern, func kern)]\<rparr>" by simp_all
    from Cons.prems Inr p
    have "registerOp_loop opn ks (ro\<lparr>op_registrars := op_registrars ro @ [h]\<rparr>, d1)
            = Throws e (ro', d')" by simp
    from Cons.IH[OF this] obtain pre k2 post where
      ks: "ks = pre @ k2 # post" and e: "e = ImplConflict opn (dispatch_key k2)"
      and ro': "ro' = ro\<lparr>op_registrars := op_registrars ro @ [h]\<rparr>
                  \<lparr>op_registrars := op_registrars (ro\<lparr>op_registrars := op_registrars ro @ [h]\<rparr>) @
                  map (\<lambda>x. ImplHandle opn (dispatch_key x)) pre\<rparr>"
      and d': "d' = d1\<lparr>impls := impls d1 @ map (\<lambda>x. (opn, dispatch_key x, func x)) pre\<rparr>"
      by blast
    have "kern # ks = (kern # pre) @ k2 # post \<and> e = ImplConflict opn (dispatch_key k2) \<and>
          ro' = ro\<lparr>op_registrars := op_registrars ro @
                  map (\<lambda>x. ImplHandle opn (dispatch_key x)) (kern # pre)\<rparr> \<and>
          d' = d\<lparr>impls := impls d @ map (\<lambda>x. (opn, dispatch_key x, func x)) (kern # pre)\<rparr>"
      using ks e ro' d' h d1 by simp
    then show ?thesis by blast
  qed
qed

lemma registerOp_Throws_exact:
  assumes "registerOp options (ro, d) = Throws e (ro', d')"
      and "schemaOrName options = Some (Inr schema0)"
      and "s = (case aliasAnalysisKind options of
                  Some a \<Rightarrow> setAliasAnalysis a schema0 | None \<Rightarrow> schema0)"
  shows "(e = DefConflict (operator_name s) \<and> (ro', d') = (ro, d)) \<or>
         (\<exists>pre kern post. kernels options = pre @ kern # post \<and>
            e = ImplConflict (operator_name s) (dispatch_key kern) \<and>
            ro' = ro\<lparr>op_registrars := op_registrars ro @ DefHandle (operator_name s) #
                       map (\<lambda>x. ImplHandle (operator_name s) (dispatch_key x)) pre\<rparr> \<and>
            d' = d\<lparr>defs := defs d @ [s],
                   impls := impls d @ map (\<lambda>x. (operator_name s, dispatch_key x, func x)) pre\<rparr>)"
proof (cases "registerDef s ''registered by RegisterOperators'' d")
  case (Inl e')
  with assms registerDef_cases(1)[OF Inl] show ?thesis
    by (simp add: registerOp_def Let_def)
next
  case (Inr p)
  obtain h d1 where p: "p = (h, d1)" by (cases p)
  from registerDef_cases(2)[OF Inr[unfolded p]]
  have h: "h = DefHandle (operator_name s)" and d1: "d1 = d\<lparr>defs := defs d @ [s]\<rparr>"
    by simp_all
  from assms Inr p
  have "registerOp_loop (operator_name s) (kernels options)
          (ro\<lparr>op_registrars := op_registrars ro @ [h]\<rparr>, d1) = Throws e (ro', d')"
    by (simp add: registerOp_def Let_def)
  from registerOp_loop_Throws_exact[OF this] h d1 show ?thesis by auto
qed

lemma checkNoDuplicateKernels_right_Raise:
  "schemaOrName options = Some (Inr schema) \<Longrightarrow> checkNoDuplicateKernels options = Raise e \<Longrightarrow>
     \<exists>msg. e = Error msg"
  using checkNoDuplicateKernels_loop_right[of schema "kernels options" "{}" False]
  by (auto simp: checkNoDuplicateKernels_def)

lemma inferSchemaFromKernels_Raise:
  "inferSchemaFromKernels nm options = Raise e \<Longrightarrow> \<exists>msg. e = Error msg"
  by (auto simp: inferSchemaFromKernels_def split: if_splits option.splits)

lemma registerOp_ImplConflict:
  assumes "registerOp options (ro, d) = Throws (ImplConflict opn k) (ro', d')"
      and "schemaOrName options = Some (Inr schema)"
  shows "\<exists>s pre kern post.
           s = (case aliasAnalysisKind options of
                  Some a \<Rightarrow> setAliasAnalysis a schema | None \<Rightarrow> schema) \<and>
           operator_name s = opn \<and>
           kernels options = pre @ kern # post \<and> dispatch_key kern = k \<and>
           ro' = ro\<lparr>op_registrars := op_registrars ro @ DefHandle opn #
                      map (\<lambda>x. ImplHandle opn (dispatch_key x)) pre\<rparr> \<and>
           d' = d\<lparr>defs := defs d @ [s],
                  impls := impls d @ map (\<lambda>x. (opn, dispatch_key x, func x)) pre\<rparr>"
  using registerOp_Throws_exact[OF assms refl] by auto

lemma checkSchemaAndRegisterOp_ImplConflict:
  assumes "checkSchemaAndRegisterOp options (ro, d) = Throws (ImplConflict opn k) (ro', d')"
  shows "\<exists>schema s pre kern post.
           (schemaOrName options = Some (Inr schema) \<or>
            (\<exists>nm frag. schemaOrName options = Some (Inl nm) \<and>
               inferSchemaFromKernels nm options = Ok frag \<and>
               schema = FunctionSchema_new (name nm) (overload_name nm) (arguments frag)
                          (returns frag) (is_vararg frag) (is_varret frag))) \<and>
           s = (case aliasAnalysisKind options of
                  Some a \<Rightarrow> setAliasAnalysis a schema | None \<Rightarrow> schema) \<and>
           operator_name s = opn \<and>
           kernels options = pre @ kern # post \<and> dispatch_key kern = k \<and>
           ro' = ro\<lparr>op_registrars := op_registrars ro @ DefHandle opn #
                      map (\<lambda>x. ImplHandle opn (dispatch_key x)) pre\<rparr> \<and>
           d' = d\<lparr>defs := defs d @ [s],
                  impls := impls d @ map (\<lambda>x. (opn, dispatch_key x, func x)) pre\<rparr>"
proof (cases "schemaOrName options")
  case None
  with assms show ?thesis by (simp add: checkSchemaAndRegisterOp_def)
next
  case (Some son)
  show ?thesis
  proof (cases son)
    case (Inr schema)
    have son: "schemaOrName options = Some (Inr schema)" using Some Inr by simp
    from assms son checkNoDuplicateKernels_right_Raise[OF son]
    have "registerOp options (ro, d) = Throws (ImplConflict opn k) (ro', d')"
      by (auto simp: checkSchemaAndRegisterOp_def split: result.splits)
    from registerOp_ImplConflict[OF this son] son show ?thesis
      by blast
  next
    case (Inl nm)
    have son: "schemaOrName options = Some (Inl nm)" using Some Inl by simp
    show ?thesis
    proof (cases "inferSchemaFromKernels nm options")
      case (Raise e)
      with assms son inferSchemaFromKernels_Raise[OF Raise] show ?thesis
        by (auto simp: checkSchemaAndRegisterOp_def)
    next
      case (Fault x)
      with assms son show ?thesis by (simp add: checkSchemaAndRegisterOp_def)
    next
      case (Ok frag)
      define schema where "schema = FunctionSchema_new (name nm) (overload_name nm)
          (arguments frag) (returns frag) (is_vararg frag) (is_varret frag)"
      define options' where "options' = options\<lparr>schemaOrName := Some (Inr schema)\<rparr>"
      have son': "schemaOrName options' = Some (Inr schema)"
        and same: "kernels options' = kernels options"
          "aliasAnalysisKind options' = aliasAnalysisKind options"
        by (simp_all add: options'_def)
      from assms son Ok checkNoDuplicateKernels_right_Raise[OF son']
      have "registerOp options' (ro, d) = Throws (ImplConflict opn k) (ro', d')"
        by (auto simp: checkSchemaAndRegisterOp_def Let_def schema_def options'_def
            split: result.splits if_splits)
      from registerOp_ImplConflict[OF this son', unfolded same]
      obtain s pre kern post where
        "s = (case aliasAnalysisKind options of
                  Some a \<Rightarrow> setAliasAnalysis a schema | None \<Rightarrow> schema)"
        "operator_name s = opn" "kernels options = pre @ kern # post" "dispatch_key kern = k"
        "ro' = ro\<lparr>op_registrars := op_registrars ro @ DefHandle opn #
                      map (\<lambda>x. ImplHandle opn (dispatch_key x)) pre\<rparr>"
        "d' = d\<lparr>defs := defs d @ [s],
                  impls := impls d @ map (\<lambda>x. (opn, dispatch_key x, func x)) pre\<rparr>"
        by blast
      moreover have "\<exists>nm frag. schemaOrName options = Some (Inl nm) \<and>
               inferSchemaFromKernels nm options = Ok frag \<and>
               schema = FunctionSchema_new (name nm) (overload_name nm) (arguments frag)
                          (returns frag) (is_vararg frag) (is_varret frag)"
        using son Ok schema_def by blast
      ultimately show ?thesis by blast
    qed
  qed
qed

lemma checkSchemaAndRegisterOp_other_error:
  assumes "checkSchemaAndRegisterOp options (ro, d) = Throws e st'"
      and "\<forall>opn k. e \<noteq> ImplConflict opn k"
  shows "st' = (ro, d)"
  using checkSchemaAndRegisterOp_Throws[of options ro d e "fst st'" "snd st'"] assms
  by auto

lemma registerOp_loop_append:
  "distinct (map dispatch_key pre) \<Longrightarrow>
   \<forall>x \<in> set pre. (opn, dispatch_key x) \<notin> (\<lambda>(n, key, _). (n, key)) ` set (impls d) \<Longrightarrow>
     registerOp_loop opn (pre @ ks) (ro, d)
       = registerOp_loop opn ks
           (ro\<lparr>op_registrars := op_registrars ro @
                  map (\<lambda>x. ImplHandle opn (dispatch_key x)) pre\<rparr>,
            d\<lparr>impls := impls d @ map (\<lambda>x. (opn, dispatch_key x, func x)) pre\<rparr>)"
proof (induction pre arbitrary: ro d)
  case Nil
  then show ?case by simp
next
  case (Cons p pre)
  let ?d1 = "d\<lparr>impls := impls d @ [(opn, dispatch_key p, func p)]\<rparr>"
  let ?ro1 = "ro\<lparr>op_registrars := op_registrars ro @ [ImplHandle opn (dispatch_key p)]\<rparr>"
  from Cons.prems have step: "registerImpl opn (dispatch_key p) (func p)
      (inferred_function_schema p) ''registered by RegisterOperators'' d
        = Inr (ImplHandle opn (dispatch_key p), ?d1)"
    by (auto simp: registerImpl_def)
  from Cons.prems have d: "distinct (map dispatch_key pre)"
    and fresh: "\<forall>x \<in> set pre. (opn, dispatch_key x) \<notin> (\<lambda>(n, key, _). (n, key)) ` set (impls ?d1)"
    by (auto simp: image_iff)
  from Cons.IH[OF d fresh, of ?ro1] step show ?case by simp
qed

lemma distinct_dispatch_keys:
  "distinct (filter (\<lambda>x. x \<noteq> None) xs) \<Longrightarrow> length (filter (\<lambda>x. x = None) xs) \<le> 1 \<Longrightarrow>
     distinct (xs :: 'a option list)"
proof (induction xs)
  case Nil
  then show ?case by simp
next
  case (Cons x xs)
  show ?case
  proof (cases x)
    case None
    with Cons.prems have "filter (\<lambda>x. x = None) xs = []" by simp
    then have "None \<notin> set xs" by (auto simp: filter_empty_conv)
    with None Cons show ?thesis by simp
  next
    case (Some a)
    with Cons show ?thesis by auto
  qed
qed

lemma checkNoDuplicateKernels_distinct:
  "checkNoDuplicateKernels options = Ok () \<Longrightarrow> distinct (map dispatch_key (kernels options))"
proof -
  assume "checkNoDuplicateKernels options = Ok ()"
  then have "distinct (filter (\<lambda>x. x \<noteq> None) (map dispatch_key (kernels options)))"
    and "length (filter (\<lambda>x. x = None) (map dispatch_key (kernels options))) \<le> 1"
    by (simp_all add: checkNoDuplicateKernels_def checkNoDuplicateKernels_loop_Ok)
  then show ?thesis by (rule distinct_dispatch_keys)
qed

lemma registerOp_refused_kernel:
  assumes son: "schemaOrName options = Some (Inr schema)"
      and s: "s = (case aliasAnalysisKind options of
                     Some a \<Rightarrow> setAliasAnalysis a schema | None \<Rightarrow> schema)"
      and new: "operator_name s \<notin> operator_name ` set (defs d)"
      and ks: "kernels options = pre @ kern # post"
      and dist: "distinct (map dispatch_key pre)"
      and fresh: "\<forall>x \<in> set pre.
                    (operator_name s, dispatch_key x) \<notin> (\<lambda>(n, key, _). (n, key)) ` set (impls d)"
      and bound: "(operator_name s, dispatch_key kern) \<in> (\<lambda>(n, key, _). (n, key)) ` set (impls d)"
  shows "registerOp options (ro, d)
           = Throws (ImplConflict (operator_name s) (dispatch_key kern))
               (ro\<lparr>op_registrars := op_registrars ro @ DefHandle (operator_name s) #
                      map (\<lambda>x. ImplHandle (operator_name s) (dispatch_key x)) pre\<rparr>,
                d\<lparr>defs := defs d @ [s],
                  impls := impls d @
                    map (\<lambda>x. (operator_name s, dispatch_key x, func x)) pre\<rparr>)"
proof -
  let ?opn = "operator_name s"
  let ?d1 = "d\<lparr>defs := defs d @ [s]\<rparr>"
  let ?ro1 = "ro\<lparr>op_registrars := op_registrars ro @ [DefHandle ?opn]\<rparr>"
  let ?d2 = "?d1\<lparr>impls := impls ?d1 @ map (\<lambda>x. (?opn, dispatch_key x, func x)) pre\<rparr>"
  let ?ro2 = "?ro1\<lparr>op_registrars := op_registrars ?ro1 @
                  map (\<lambda>x. ImplHandle ?opn (dispatch_key x)) pre\<rparr>"
  from new have rd: "registerDef s ''registered by RegisterOperators'' d = Inr (DefHandle ?opn, ?d1)"
    by (simp add: registerDef_def)
  have start: "registerOp options (ro, d) = registerOp_loop ?opn (pre @ kern # post) (?ro1, ?d1)"
    using son s rd ks by (simp add: registerOp_def Let_def)
  from fresh have fresh1: "\<forall>x \<in> set pre.
      (?opn, dispatch_key x) \<notin> (\<lambda>(n, key, _). (n, key)) ` set (impls ?d1)" by simp
  have skip: "registerOp_loop ?opn (pre @ kern # post) (?ro1, ?d1)
          = registerOp_loop ?opn (kern # post) (?ro2, ?d2)"
    by (rule registerOp_loop_append[OF dist fresh1])
  from bound
  have inb: "(?opn, dispatch_key kern) \<in> (\<lambda>(n, key, _). (n, key)) ` set (impls ?d2)"
    by (simp add: image_Un)
  have refuse: "registerImpl ?opn (dispatch_key kern) (func kern)
      (inferred_function_schema kern) ''registered by RegisterOperators'' ?d2
        = Inl (ImplConflict ?opn (dispatch_key kern))"
    by (simp only: registerImpl_def inb if_True)
  have "registerOp_loop ?opn (kern # post) (?ro2, ?d2)
          = Throws (ImplConflict ?opn (dispatch_key kern)) (?ro2, ?d2)"
    by (simp only: registerOp_loop.simps refuse sum.case)
  with start skip show ?thesis by simp
qed

lemma checkSchemaAndRegisterOp_refused_kernel:
  assumes origin: "schemaOrName options = Some (Inr schema) \<or>
            (\<exists>nm frag. schemaOrName options = Some (Inl nm) \<and>
               inferSchemaFromKernels nm options = Ok frag \<and>
               aliasAnalysisKind options \<noteq> Some FROM_SCHEMA \<and>
               schema = FunctionSchema_new (name nm) (overload_name nm) (arguments frag)
                          (returns frag) (is_vararg frag) (is_varret frag))"
      and s: "s = (case aliasAnalysisKind options of
                     Some a \<Rightarrow> setAliasAnalysis a schema | None \<Rightarrow> schema)"
      and chk: "checkNoDuplicateKernels options = Ok ()"
      and new: "operator_name s \<notin> operator_name ` set (defs d)"
      and ks: "kernels options = pre @ kern # post"
      and fresh: "\<forall>x \<in> set pre.
                    (operator_name s, dispatch_key x) \<notin> (\<lambda>(n, key, _). (n, key)) ` set (impls d)"
      and bound: "(operator_name s, dispatch_key kern) \<in> (\<lambda>(n, key, _). (n, key)) ` set (impls d)"
  shows "checkSchemaAndRegisterOp options (ro, d)
           = Throws (ImplConflict (operator_name s) (dispatch_key kern))
               (ro\<lparr>op_registrars := op_registrars ro @ DefHandle (operator_name s) #
                      map (\<lambda>x. ImplHandle (operator_name s) (dispatch_key x)) pre\<rparr>,
                d\<lparr>defs := defs d @ [s],
                  impls := impls d @
                    map (\<lambda>x. (operator_name s, dispatch_key x, func x)) pre\<rparr>)"
proof -
  define options' where "options' = options\<lparr>schemaOrName := Some (Inr schema)\<rparr>"
  have son': "schemaOrName options' = Some (Inr schema)"
    and same: "kernels options' = kernels options"
      "aliasAnalysisKind options' = aliasAnalysisKind options"
    by (simp_all add: options'_def)
  from checkNoDuplicateKernels_distinct[OF chk] ks have dist: "distinct (map dispatch_key pre)"
    by simp
  have chk': "checkNoDuplicateKernels options' = Ok ()"
    unfolding options'_def by (rule checkNoDuplicateKernels_son[OF chk])
  have reg: "registerOp options' (ro, d)
           = Throws (ImplConflict (operator_name s) (dispatch_key kern))
               (ro\<lparr>op_registrars := op_registrars ro @ DefHandle (operator_name s) #
                      map (\<lambda>x. ImplHandle (operator_name s) (dispatch_key x)) pre\<rparr>,
                d\<lparr>defs := defs d @ [s],
                  impls := impls d @
                    map (\<lambda>x. (operator_name s, dispatch_key x, func x)) pre\<rparr>)"
    by (rule registerOp_refused_kernel[OF son' _ new _ dist fresh bound])
       (simp_all add: same s ks)
  from origin show ?thesis
  proof
    assume son: "schemaOrName options = Some (Inr schema)"
    then have "options' = options" by (simp add: options'_def)
    with reg chk son show ?thesis by (simp add: checkSchemaAndRegisterOp_def)
  next
    assume "\<exists>nm frag. schemaOrName options = Some (Inl nm) \<and>
               inferSchemaFromKernels nm options = Ok frag \<and>
               aliasAnalysisKind options \<noteq> Some FROM_SCHEMA \<and>
               schema = FunctionSchema_new (name nm) (overload_name nm) (arguments frag)
                          (returns frag) (is_vararg frag) (is_varret frag)"
    then obtain nm frag where "schemaOrName options = Some (Inl nm)"
      "inferSchemaFromKernels nm options = Ok frag"
      "aliasAnalysisKind options \<noteq> Some FROM_SCHEMA"
      "schema = FunctionSchema_new (name nm) (overload_name nm) (arguments frag)
                          (returns frag) (is_vararg frag) (is_varret frag)" by blast
    with reg chk' show ?thesis
      by (simp add: checkSchemaAndRegisterOp_def Let_def options'_def)
  qed
qed

section \<open>Facts about the session\<close>

lemma Library_def_Throws:
  "Library_def schema st = Throws e st' \<Longrightarrow> st' = st"
  by (auto simp: Library_def_def split: prod.splits option.splits if_splits sum.splits)

lemma Library_def_Returns:
  "Library_def schema (lib, d) = Returns opn (lib', d') \<Longrightarrow>
     lib' = lib\<lparr>lib_registrars := lib_registrars lib @ [DefHandle opn]\<rparr> \<and>
     (\<exists>s. operator_name s = opn \<and> d' = d\<lparr>defs := defs d @ [s]\<rparr>)"
  by (auto simp: Library_def_def split: prod.splits option.splits if_splits sum.splits
      dest!: registerDef_cases(2))

lemma Library_impl_Throws:
  "Library_impl parseName name_str f st = Throws e st' \<Longrightarrow> st' = st"
  by (auto simp: Library_impl_def Let_def
      split: prod.splits option.splits if_splits sum.splits)

lemma Library_fallback_Throws:
  "Library_fallback f st = Throws e st' \<Longrightarrow> st' = st"
  by (auto simp: Library_fallback_def Let_def
      split: prod.splits option.splits if_splits sum.splits)

text \<open>
  \<^verbatim>\<open>_def\<close> with a kernel calls the dispatcher twice. When the second call is refused, the
  definition of the first call is in the dispatcher and its handle in the session.
\<close>

lemma Library_def_kernel_Throws:
  assumes "Library_def_kernel name_or_schema f (lib, d) = Throws e (lib', d')"
  shows "(lib', d') = (lib, d) \<or>
         (\<exists>opn k s. e = ImplConflict opn k \<and>
            lib' = lib\<lparr>lib_registrars := lib_registrars lib @ [DefHandle opn]\<rparr> \<and>
            operator_name s = opn \<and> d' = d\<lparr>defs := defs d @ [s]\<rparr>)"
proof -
  define pick where "pick = (case name_or_schema of
               Inr s \<Rightarrow> Ok s
             | Inl opn \<Rightarrow>
                 (case fn_schema f of
                    None \<Rightarrow> Raise (Error (msg_def_no_schema lib opn))
                  | Some fs \<Rightarrow>
                      Ok (setAliasAnalysis CONSERVATIVE
                            (cloneWithName (name opn) (overload_name opn) fs))))"
  show ?thesis
  proof (cases pick)
    case (Raise e')
    with assms show ?thesis by (simp add: Library_def_kernel_def pick_def)
  next
    case (Fault x)
    with assms show ?thesis by (simp add: Library_def_kernel_def pick_def)
  next
    case (Ok schema)
    show ?thesis
    proof (cases "Library_def schema (lib, d)")
      case (Throws e' st1)
      with assms Ok Library_def_Throws[OF Throws] show ?thesis
        by (simp add: Library_def_kernel_def pick_def)
    next
      case (Faults x)
      with assms Ok show ?thesis by (simp add: Library_def_kernel_def pick_def)
    next
      case (Returns opn st1)
      obtain lib1 d1 where st1: "st1 = (lib1, d1)" by (cases st1)
      from Library_def_Returns[OF Returns[unfolded st1]]
      obtain s where lib1: "lib1 = lib\<lparr>lib_registrars := lib_registrars lib @ [DefHandle opn]\<rparr>"
        and s: "operator_name s = opn" "d1 = d\<lparr>defs := defs d @ [s]\<rparr>" by blast
      from assms Ok Returns st1
      have "e = ImplConflict opn (if fn_dispatch_key f \<noteq> None then fn_dispatch_key f
                                      else lib_dispatch_key lib1) \<and> lib' = lib1 \<and> d' = d1"
        by (auto simp: Library_def_kernel_def pick_def Let_def split: sum.splits
            dest!: registerImpl_cases(1))
      with lib1 s show ?thesis by blast
    qed
  qed
qed

text \<open>
  The exact state in which \<^verbatim>\<open>_def\<close> with a kernel throws the dispatcher's refusal of the
  kernel, and that it does throw it whenever the dispatcher holds a kernel for the name
  and key.
\<close>

lemma Library_def_Returns_exact:
  "Library_def schema (lib, d) = Returns opn (lib', d') \<Longrightarrow>
     \<exists>ns s. lib_ns lib = Some ns \<and>
       s = schema\<lparr>operator_name :=
             (operator_name schema)\<lparr>name := ns @ ''::'' @ name (operator_name schema)\<rparr>\<rparr> \<and>
       opn = operator_name s \<and>
       lib' = lib\<lparr>lib_registrars := lib_registrars lib @ [DefHandle opn]\<rparr> \<and>
       d' = d\<lparr>defs := defs d @ [s]\<rparr>"
  by (auto simp: Library_def_def schema_setNamespaceIfNotSet_def setNamespaceIfNotSet_def
      schema_getNamespace_def
      split: prod.splits option.splits if_splits sum.splits dest!: registerDef_cases(2))

lemma Library_def_no_ImplConflict:
  "Library_def schema st \<noteq> Throws (ImplConflict opn k) st'"
  by (auto simp: Library_def_def registerDef_def
      split: prod.splits option.splits if_splits sum.splits)

lemma Library_def_kernel_ImplConflict:
  assumes "Library_def_kernel name_or_schema f (lib, d) = Throws (ImplConflict opn k) (lib', d')"
  shows "\<exists>schema ns s.
           (name_or_schema = Inr schema \<or>
            (\<exists>nm fs. name_or_schema = Inl nm \<and> fn_schema f = Some fs \<and>
               schema = setAliasAnalysis CONSERVATIVE
                          (cloneWithName (name nm) (overload_name nm) fs))) \<and>
           lib_ns lib = Some ns \<and>
           s = schema\<lparr>operator_name :=
                 (operator_name schema)\<lparr>name := ns @ ''::'' @ name (operator_name schema)\<rparr>\<rparr> \<and>
           operator_name s = opn \<and>
           k = (case fn_dispatch_key f of Some fk \<Rightarrow> Some fk | None \<Rightarrow> lib_dispatch_key lib) \<and>
           lib' = lib\<lparr>lib_registrars := lib_registrars lib @ [DefHandle opn]\<rparr> \<and>
           d' = d\<lparr>defs := defs d @ [s]\<rparr>"
proof -
  define pick where "pick = (case name_or_schema of
               Inr s \<Rightarrow> Ok s
             | Inl opn \<Rightarrow>
                 (case fn_schema f of
                    None \<Rightarrow> Raise (Error (msg_def_no_schema lib opn))
                  | Some fs \<Rightarrow>
                      Ok (setAliasAnalysis CONSERVATIVE
                            (cloneWithName (name opn) (overload_name opn) fs))))"
  show ?thesis
  proof (cases pick)
    case (Raise e')
    then have "\<exists>m. e' = Error m"
      by (auto simp: pick_def split: sum.splits option.splits)
    with assms Raise show ?thesis by (auto simp: Library_def_kernel_def pick_def)
  next
    case (Fault x)
    with assms show ?thesis by (simp add: Library_def_kernel_def pick_def)
  next
    case (Ok schema)
    then have origin: "name_or_schema = Inr schema \<or>
            (\<exists>nm fs. name_or_schema = Inl nm \<and> fn_schema f = Some fs \<and>
               schema = setAliasAnalysis CONSERVATIVE
                          (cloneWithName (name nm) (overload_name nm) fs))"
      by (auto simp: pick_def split: sum.splits option.splits)
    show ?thesis
    proof (cases "Library_def schema (lib, d)")
      case (Throws e' st1)
      with assms Ok Library_def_no_ImplConflict[of schema "(lib, d)" opn k st1] show ?thesis
        by (simp add: Library_def_kernel_def pick_def)
    next
      case (Faults x)
      with assms Ok show ?thesis by (simp add: Library_def_kernel_def pick_def)
    next
      case (Returns opn1 st1)
      obtain lib1 d1 where st1: "st1 = (lib1, d1)" by (cases st1)
      from Library_def_Returns_exact[OF Returns[unfolded st1]]
      obtain ns s where ns: "lib_ns lib = Some ns"
        and s: "s = schema\<lparr>operator_name :=
             (operator_name schema)\<lparr>name := ns @ ''::'' @ name (operator_name schema)\<rparr>\<rparr>"
        and opn1: "opn1 = operator_name s"
        and lib1: "lib1 = lib\<lparr>lib_registrars := lib_registrars lib @ [DefHandle opn1]\<rparr>"
        and d1: "d1 = d\<lparr>defs := defs d @ [s]\<rparr>" by blast
      from assms Ok Returns st1
      have "opn = opn1 \<and> k = (if fn_dispatch_key f \<noteq> None then fn_dispatch_key f
                                      else lib_dispatch_key lib1) \<and> lib' = lib1 \<and> d' = d1"
        by (auto simp: Library_def_kernel_def pick_def Let_def split: sum.splits
            dest!: registerImpl_cases(1))
      moreover have "(if fn_dispatch_key f \<noteq> None then fn_dispatch_key f
                                      else lib_dispatch_key lib1)
         = (case fn_dispatch_key f of Some fk \<Rightarrow> Some fk | None \<Rightarrow> lib_dispatch_key lib)"
        by (simp add: lib1 split: option.splits)
      ultimately show ?thesis using origin ns s opn1 lib1 d1 by auto
    qed
  qed
qed

lemma Library_def_kernel_other_error:
  assumes "Library_def_kernel name_or_schema f (lib, d) = Throws e st'"
      and "\<forall>opn k. e \<noteq> ImplConflict opn k"
  shows "st' = (lib, d)"
  using Library_def_kernel_Throws[of name_or_schema f lib d e "fst st'" "snd st'"] assms
  by auto

lemma Library_def_kernel_refused_kernel:
  assumes origin: "name_or_schema = Inr schema \<or>
            (\<exists>nm fs. name_or_schema = Inl nm \<and> fn_schema f = Some fs \<and>
               schema = setAliasAnalysis CONSERVATIVE
                          (cloneWithName (name nm) (overload_name nm) fs))"
      and def: "Library_def schema (lib, d) = Returns opn (lib1, d1)"
      and k: "k = (case fn_dispatch_key f of Some fk \<Rightarrow> Some fk | None \<Rightarrow> lib_dispatch_key lib)"
      and bound: "(opn, k) \<in> (\<lambda>(n, key, _). (n, key)) ` set (impls d)"
  shows "Library_def_kernel name_or_schema f (lib, d) = Throws (ImplConflict opn k) (lib1, d1) \<and>
         lib1 = lib\<lparr>lib_registrars := lib_registrars lib @ [DefHandle opn]\<rparr> \<and>
         (\<exists>s. operator_name s = opn \<and> d1 = d\<lparr>defs := defs d @ [s]\<rparr>)"
proof -
  from Library_def_Returns[OF def]
  obtain s where lib1: "lib1 = lib\<lparr>lib_registrars := lib_registrars lib @ [DefHandle opn]\<rparr>"
    and s: "operator_name s = opn" "d1 = d\<lparr>defs := defs d @ [s]\<rparr>" by blast
  have key: "(if fn_dispatch_key f \<noteq> None then fn_dispatch_key f else lib_dispatch_key lib1) = k"
    by (simp add: k lib1 split: option.splits)
  from bound s have "registerImpl opn k (fn_func f) (fn_schema f)
      (debugString (fn_debug f) (lib_file lib1) (lib_line lib1)) d1 = Inl (ImplConflict opn k)"
    by (simp add: registerImpl_def)
  with origin def key have "Library_def_kernel name_or_schema f (lib, d)
      = Throws (ImplConflict opn k) (lib1, d1)"
    by (auto simp: Library_def_kernel_def Let_def)
  with lib1 s show ?thesis by blast
qed

text \<open>
  The namespace step of \<^verbatim>\<open>_def\<close> and \<^verbatim>\<open>_impl\<close> in a session that has a namespace: a name
  with a namespace of its own is rejected before the dispatcher is called, with the
  "redundant" message when the two are equal and the message that asks to move the
  registration otherwise.
\<close>

lemma Library_def_explicit_namespace:
  assumes "lib_kind lib = DEF \<or> lib_kind lib = FRAGMENT"
      and "lib_ns lib = Some ns" and "lib_dispatch_key lib = None"
      and "schema_getNamespace schema = Some n"
  shows "Library_def schema (lib, d)
           = Throws (Error (if n = ns then msg_def_redundant_namespace lib schema ns
                            else msg_def_invalid_namespace lib schema n)) (lib, d)"
  using assms by (auto simp: Library_def_def)

lemma Library_def_inject_namespace:
  assumes "lib_kind lib = DEF \<or> lib_kind lib = FRAGMENT"
      and "lib_ns lib = Some ns" and "lib_dispatch_key lib = None"
      and "schema_getNamespace schema = None"
      and "schema' = schema\<lparr>operator_name :=
                       (operator_name schema)\<lparr>name := ns @ ''::'' @ name (operator_name schema)\<rparr>\<rparr>"
  shows "Library_def schema (lib, d)
           = (case registerDef schema' (debugString [] (lib_file lib) (lib_line lib)) d of
                Inl e \<Rightarrow> Throws e (lib, d)
              | Inr (h, d') \<Rightarrow>
                  Returns (operator_name schema')
                    (lib\<lparr>lib_registrars := lib_registrars lib @ [h]\<rparr>, d'))"
  using assms
  by (auto simp: Library_def_def schema_getNamespace_def schema_setNamespaceIfNotSet_def
      setNamespaceIfNotSet_def split: sum.splits)

lemma Library_impl_explicit_namespace:
  assumes "parseName name_str = Inr opn" and "lib_ns lib = Some ns"
      and "getNamespace opn = Some n"
  shows "Library_impl parseName name_str f (lib, d)
           = Throws (Error (if n = ns then msg_impl_redundant_namespace lib name_str ns
                            else msg_impl_invalid_namespace lib name_str n)) (lib, d)"
  using assms by (auto simp: Library_impl_def)

text \<open>In a session without a namespace every \<^verbatim>\<open>_impl\<close> reads the empty \<^verbatim>\<open>ns_\<close>.\<close>

lemma Library_impl_wildcard:
  "lib_ns lib = None \<Longrightarrow> parseName name_str = Inr opn \<Longrightarrow>
     Library_impl parseName name_str f (lib, d)
       = Faults (if getNamespace opn = None then Deref_ns_inject else Deref_ns_compare)"
  by (auto simp: Library_impl_def split: option.splits)

text \<open>
  The constructor outside the fault: an \<^verbatim>\<open>IMPL\<close> session is built with no check, a
  \<^verbatim>\<open>FRAGMENT\<close> or \<^verbatim>\<open>DEF\<close> session only with a namespace and no dispatch key, and a \<^verbatim>\<open>DEF\<close>
  session holds the handle of its namespace.
\<close>

lemma Library_Library_IMPL:
  "Library_Library IMPL ns k file line d
     = Returns \<lparr>lib_kind = IMPL, lib_ns = (if ns = ''_'' then None else Some ns),
                lib_dispatch_key = (if k = None \<or> k = Some CatchAll then None else k),
                lib_file = file, lib_line = line, lib_registrars = []\<rparr> d"
  by (simp add: Library_Library_def)

lemma Library_Library_FRAGMENT:
  "Library_Library FRAGMENT ns k file line d
     = (let lib = \<lparr>lib_kind = FRAGMENT, lib_ns = (if ns = ''_'' then None else Some ns),
                   lib_dispatch_key = (if k = None \<or> k = Some CatchAll then None else k),
                   lib_file = file, lib_line = line, lib_registrars = []\<rparr>
        in if ns = ''_'' then Throws (Error (msg_wildcard_namespace lib)) d
           else if k \<noteq> None \<and> k \<noteq> Some CatchAll then Throws (InternalAssert (ERROR_CONTEXT lib)) d
           else Returns lib d)"
  by (simp add: Library_Library_def Library_case_FRAGMENT_def release_all_def Let_def)

lemma remove_first_append_new:
  "x \<notin> set xs \<Longrightarrow> remove_first (\<lambda>n. n = x) (xs @ [x]) = xs"
  by (induction xs) auto

lemma Library_Library_DEF:
  assumes "ns \<noteq> ''_''"
  shows "Library_Library DEF ns k file line d
     = (let lib = \<lparr>lib_kind = DEF, lib_ns = Some ns,
                   lib_dispatch_key = (if k = None \<or> k = Some CatchAll then None else k),
                   lib_file = file, lib_line = line, lib_registrars = [LibraryHandle ns]\<rparr>
        in if ns \<in> set (libraries d) then Throws (LibraryConflict ns) d
           else if k \<noteq> None \<and> k \<noteq> Some CatchAll then Throws (InternalAssert (ERROR_CONTEXT lib)) d
           else Returns lib (d\<lparr>libraries := libraries d @ [ns]\<rparr>))"
  using assms
  by (simp add: Library_Library_def Library_case_FRAGMENT_def release_all_def registerLibrary_def
      remove_first_append_new Let_def)

section \<open>Evaluations of the examples\<close>

lemma ex_commit_inferred:
  "checkSchemaAndRegisterOp ex_inferred_options (ex_registrar, empty_Dispatcher)
     = Returns ()
         (\<lparr>op_registrars = [DefHandle ex_op, ImplHandle ex_op (Some (Backend 1)),
              ImplHandle ex_op (Some (Backend 2)), ImplHandle ex_op None]\<rparr>,
          \<lparr>libraries = [], defs = [ex_schema],
            impls = [(ex_op, Some (Backend 1), KernelFunction 0),
                     (ex_op, Some (Backend 2), KernelFunction 0),
                     (ex_op, None, KernelFunction 0)],
            fallbacks = []\<rparr>)"
  by (simp add: checkSchemaAndRegisterOp_def inferSchemaFromKernels_def
      checkNoDuplicateKernels_def registerOp_def registerDef_def registerImpl_def
      ex_defs Let_def)

lemma ex_commit_name_without_kernels:
  "checkSchemaAndRegisterOp
     \<lparr>schemaOrName = Some (Inl ex_op), kernels = [], aliasAnalysisKind = None\<rparr>
     (ex_registrar, empty_Dispatcher)
   = Throws (Error (msg_no_kernel_specified ex_op)) (ex_registrar, empty_Dispatcher)"
  by (simp add: checkSchemaAndRegisterOp_def inferSchemaFromKernels_def)

lemma ex_def_kernel_conflict:
  "Library_def_kernel (Inl \<lparr>name = ''add'', overload_name = []\<rparr>)
     (ex_fn (Some (Backend 1)) (Some ex_int_fragment))
     (ex_library FRAGMENT (Some ''mylib'') None, ex_bound_Dispatcher)
   = Throws (ImplConflict ex_mylib_add (Some (Backend 1)))
       ((ex_library FRAGMENT (Some ''mylib'') None)\<lparr>lib_registrars := [DefHandle ex_mylib_add]\<rparr>,
        ex_bound_Dispatcher\<lparr>defs := [ex_mylib_add_schema]\<rparr>)"
  by (simp add: Library_def_kernel_def Library_def_def schema_getNamespace_def getNamespace_def
      schema_setNamespaceIfNotSet_def setNamespaceIfNotSet_def cloneWithName_def
      setAliasAnalysis_def registerDef_def registerImpl_def ex_defs Let_def)

lemma ex_commit_conflict:
  "checkSchemaAndRegisterOp ex_conflict_options (ex_registrar, ex_bound_Dispatcher)
   = Throws (ImplConflict ex_mylib_add (Some (Backend 1)))
       (\<lparr>op_registrars = [DefHandle ex_mylib_add, ImplHandle ex_mylib_add (Some (Backend 2))]\<rparr>,
        \<lparr>libraries = [], defs = [ex_mylib_add_schema],
          impls = [(ex_mylib_add, Some (Backend 1), KernelFunction 5),
                   (ex_mylib_add, Some (Backend 2), KernelFunction 0)],
          fallbacks = []\<rparr>)"
  by (simp add: checkSchemaAndRegisterOp_def checkNoDuplicateKernels_def registerOp_def
      registerDef_def registerImpl_def ex_defs Let_def)

lemma ex_def_wrong_block:
  "Library_def ex_schema (ex_library IMPL (Some ''mylib'') None, empty_Dispatcher)
   = Throws (Error (msg_def_wrong_block (ex_library IMPL (Some ''mylib'') None) ex_schema))
       (ex_library IMPL (Some ''mylib'') None, empty_Dispatcher)"
  by (simp add: Library_def_def ex_library_def)

lemma ex_impl_other_namespace:
  "Library_impl ex_parseName ''mylib::add'' (ex_fn None None)
     (ex_library IMPL (Some ''otherlib'') None, empty_Dispatcher)
   = Throws (Error (msg_impl_invalid_namespace (ex_library IMPL (Some ''otherlib'') None)
               ''mylib::add'' ''mylib''))
       (ex_library IMPL (Some ''otherlib'') None, empty_Dispatcher)"
  by (simp add: Library_impl_def getNamespace_def ex_library_def ex_parseName_def)

lemma ex_fallback_wrong_block:
  "Library_fallback (ex_fn (Some (Backend 1)) None)
     (ex_library DEF (Some ''mylib'') None, empty_Dispatcher)
   = Throws (Error (msg_fallback_wrong_block (ex_library DEF (Some ''mylib'') None)))
       (ex_library DEF (Some ''mylib'') None, empty_Dispatcher)"
  by (simp add: Library_fallback_def ex_library_def)

section \<open>The batch registrar: an empty kernel list\<close>

text \<open>
  Claim C1 says that every commit of the batch registrar with an empty kernel list fails
  with the configuration error "no kernel specified", whether or not a schema was given,
  and registers nothing. The size check sits in \<^verbatim>\<open>inferSchemaFromKernels_\<close> alone, which runs
  only when no schema was given. With an explicit schema and no kernel the duplicate check
  passes on the empty list and \<^verbatim>\<open>registerOp_\<close> registers the definition: on the empty
  dispatcher the commit returns with one definition handle.
\<close>

theorem commit_schema_without_kernels_registers:
  "checkSchemaAndRegisterOp
     \<lparr>schemaOrName = Some (Inr ex_schema), kernels = [], aliasAnalysisKind = None\<rparr>
     (ex_registrar, empty_Dispatcher)
   = Returns () (\<lparr>op_registrars = [DefHandle ex_op]\<rparr>,
                 \<lparr>libraries = [], defs = [ex_schema], impls = [], fallbacks = []\<rparr>)"
  by (simp add: checkSchemaAndRegisterOp_def checkNoDuplicateKernels_def registerOp_def
      registerDef_def ex_registrar_def empty_Dispatcher_def ex_schema_def ex_op_def
      FunctionSchema_new_def)

text \<open>
  Claim C1, amended: a commit with an empty kernel list and an operator name only fails
  with the configuration error "no kernel specified" and leaves the registrar and the
  dispatcher as they were; with an explicit schema it raises no such error and registers
  the schema as a definition, with one handle, unless the dispatcher refuses the
  definition.
\<close>

theorem commit_without_kernels:
  assumes "kernels options = []"
  shows "(schemaOrName options = Some (Inl opName) \<longrightarrow>
            checkSchemaAndRegisterOp options (ro, d)
              = Throws (Error (msg_no_kernel_specified opName)) (ro, d)) \<and>
         (schemaOrName options = Some (Inr schema) \<longrightarrow>
            checkSchemaAndRegisterOp options (ro, d)
              = (case registerDef
                        (case aliasAnalysisKind options of
                           Some a \<Rightarrow> setAliasAnalysis a schema | None \<Rightarrow> schema)
                        ''registered by RegisterOperators'' d of
                   Inl e \<Rightarrow> Throws e (ro, d)
                 | Inr (h, d') \<Rightarrow>
                     Returns () (ro\<lparr>op_registrars := op_registrars ro @ [h]\<rparr>, d')))"
  using assms
  by (auto simp: checkSchemaAndRegisterOp_def inferSchemaFromKernels_def
      checkNoDuplicateKernels_def registerOp_def Let_def split: sum.splits)

theorem commit_without_kernels_witness:
  "checkSchemaAndRegisterOp
     \<lparr>schemaOrName = Some (Inl ex_op), kernels = [], aliasAnalysisKind = None\<rparr>
     (ex_registrar, empty_Dispatcher)
   = Throws (Error (msg_no_kernel_specified ex_op)) (ex_registrar, empty_Dispatcher) \<and>
   checkSchemaAndRegisterOp
     \<lparr>schemaOrName = Some (Inr ex_schema), kernels = [], aliasAnalysisKind = None\<rparr>
     (ex_registrar, empty_Dispatcher)
   = Returns () (ex_registrar\<lparr>op_registrars := [DefHandle ex_op]\<rparr>,
                 empty_Dispatcher\<lparr>defs := [ex_schema]\<rparr>)"
  using commit_without_kernels
    [of "\<lparr>schemaOrName = Some (Inl ex_op), kernels = [], aliasAnalysisKind = None\<rparr>"
      ex_op ex_registrar empty_Dispatcher]
    commit_without_kernels
    [of "\<lparr>schemaOrName = Some (Inr ex_schema), kernels = [], aliasAnalysisKind = None\<rparr>"
      _ ex_registrar empty_Dispatcher ex_schema]
  by (simp add: registerDef_def ex_defs)

section \<open>Failure of a single operation\<close>

text \<open>
  Claim C2 says that an operation which propagates an error leaves no registration of its
  own committed and no handle of its own in the owner's list. \<^verbatim>\<open>_def\<close> with a kernel
  registers the definition and appends its handle, and only then registers the kernel;
  nothing undoes the first step when the second is refused. In a fragment session for
  \<^verbatim>\<open>mylib\<close>, with a kernel already bound to \<^verbatim>\<open>mylib::add\<close> for the same dispatch key, the
  call throws the conflict while the definition is in the dispatcher and its handle in
  the session.
\<close>

theorem define_with_kernel_leaves_definition:
  "Library_def_kernel (Inl \<lparr>name = ''add'', overload_name = []\<rparr>)
     (ex_fn (Some (Backend 1)) (Some ex_int_fragment))
     (ex_library FRAGMENT (Some ''mylib'') None, ex_bound_Dispatcher)
   = Throws (ImplConflict ex_mylib_add (Some (Backend 1)))
       ((ex_library FRAGMENT (Some ''mylib'') None)\<lparr>lib_registrars := [DefHandle ex_mylib_add]\<rparr>,
        ex_bound_Dispatcher\<lparr>defs := [ex_mylib_add_schema]\<rparr>)"
  by (rule ex_def_kernel_conflict)

text \<open>
  Claim C2, amended: \<^verbatim>\<open>_def\<close> on a schema, \<^verbatim>\<open>_impl\<close> and \<^verbatim>\<open>_fallback\<close>, which call the
  dispatcher once, leave the session and the dispatcher unchanged whenever they throw.
  \<^verbatim>\<open>_def\<close> with a kernel and a commit of the batch registrar leave them unchanged when the
  error they throw is not the dispatcher's refusal of a kernel. When the dispatcher
  refuses a kernel, which happens after the definition was registered, the error
  propagates and the operation is not undone: the definition is in the dispatcher and its
  handle in the owner's list, and in a commit so are the kernels before the refused one,
  with their handles. The refusal does occur whenever the dispatcher already holds a kernel
  for the operator and the dispatch key of the kernel at hand.
\<close>

theorem failed_operation_effects:
  "(\<forall>e st'. Library_def schema (lib, d) = Throws e st' \<longrightarrow> st' = (lib, d)) \<and>
   (\<forall>e st'. Library_impl parseName name_str f (lib, d) = Throws e st' \<longrightarrow> st' = (lib, d)) \<and>
   (\<forall>e st'. Library_fallback f (lib, d) = Throws e st' \<longrightarrow> st' = (lib, d)) \<and>
   (\<forall>e st'. Library_def_kernel name_or_schema f (lib, d) = Throws e st' \<and>
      (\<forall>opn k. e \<noteq> ImplConflict opn k) \<longrightarrow> st' = (lib, d)) \<and>
   (\<forall>opn k lib' d'.
      Library_def_kernel name_or_schema f (lib, d) = Throws (ImplConflict opn k) (lib', d') \<longrightarrow>
      (\<exists>sch ns s.
         (name_or_schema = Inr sch \<or>
           (\<exists>nm fs. name_or_schema = Inl nm \<and> fn_schema f = Some fs \<and>
              sch = setAliasAnalysis CONSERVATIVE
                      (cloneWithName (name nm) (overload_name nm) fs))) \<and>
         lib_ns lib = Some ns \<and>
         s = sch\<lparr>operator_name :=
               (operator_name sch)\<lparr>name := ns @ ''::'' @ name (operator_name sch)\<rparr>\<rparr> \<and>
         operator_name s = opn \<and>
         k = (case fn_dispatch_key f of Some fk \<Rightarrow> Some fk | None \<Rightarrow> lib_dispatch_key lib) \<and>
         lib' = lib\<lparr>lib_registrars := lib_registrars lib @ [DefHandle opn]\<rparr> \<and>
         d' = d\<lparr>defs := defs d @ [s]\<rparr>)) \<and>
   (\<forall>sch opn k lib1 d1.
      (name_or_schema = Inr sch \<or>
          (\<exists>nm fs. name_or_schema = Inl nm \<and> fn_schema f = Some fs \<and>
             sch = setAliasAnalysis CONSERVATIVE
                     (cloneWithName (name nm) (overload_name nm) fs))) \<and>
      Library_def sch (lib, d) = Returns opn (lib1, d1) \<and>
      k = (case fn_dispatch_key f of Some fk \<Rightarrow> Some fk | None \<Rightarrow> lib_dispatch_key lib) \<and>
      (opn, k) \<in> (\<lambda>(n, key, _). (n, key)) ` set (impls d) \<longrightarrow>
      Library_def_kernel name_or_schema f (lib, d) = Throws (ImplConflict opn k) (lib1, d1) \<and>
      lib1 = lib\<lparr>lib_registrars := lib_registrars lib @ [DefHandle opn]\<rparr> \<and>
      (\<exists>s. operator_name s = opn \<and> d1 = d\<lparr>defs := defs d @ [s]\<rparr>)) \<and>
   (\<forall>e st'. checkSchemaAndRegisterOp options (ro, od) = Throws e st' \<and>
      (\<forall>opn k. e \<noteq> ImplConflict opn k) \<longrightarrow> st' = (ro, od)) \<and>
   (\<forall>opn k ro' od'.
      checkSchemaAndRegisterOp options (ro, od) = Throws (ImplConflict opn k) (ro', od') \<longrightarrow>
      (\<exists>sch s pre kern post.
         (schemaOrName options = Some (Inr sch) \<or>
          (\<exists>nm frag. schemaOrName options = Some (Inl nm) \<and>
             inferSchemaFromKernels nm options = Ok frag \<and>
             sch = FunctionSchema_new (name nm) (overload_name nm) (arguments frag)
                     (returns frag) (is_vararg frag) (is_varret frag))) \<and>
         s = (case aliasAnalysisKind options of
                Some a \<Rightarrow> setAliasAnalysis a sch | None \<Rightarrow> sch) \<and>
         operator_name s = opn \<and>
         kernels options = pre @ kern # post \<and> dispatch_key kern = k \<and>
         ro' = ro\<lparr>op_registrars := op_registrars ro @ DefHandle opn #
                    map (\<lambda>x. ImplHandle opn (dispatch_key x)) pre\<rparr> \<and>
         od' = od\<lparr>defs := defs od @ [s],
                  impls := impls od @ map (\<lambda>x. (opn, dispatch_key x, func x)) pre\<rparr>)) \<and>
   (\<forall>sch s pre kern post.
      (schemaOrName options = Some (Inr sch) \<or>
       (\<exists>nm frag. schemaOrName options = Some (Inl nm) \<and>
          inferSchemaFromKernels nm options = Ok frag \<and>
          aliasAnalysisKind options \<noteq> Some FROM_SCHEMA \<and>
          sch = FunctionSchema_new (name nm) (overload_name nm) (arguments frag)
                  (returns frag) (is_vararg frag) (is_varret frag))) \<and>
      s = (case aliasAnalysisKind options of
             Some a \<Rightarrow> setAliasAnalysis a sch | None \<Rightarrow> sch) \<and>
      checkNoDuplicateKernels options = Ok () \<and>
      operator_name s \<notin> operator_name ` set (defs od) \<and>
      kernels options = pre @ kern # post \<and>
      (\<forall>x \<in> set pre.
         (operator_name s, dispatch_key x) \<notin> (\<lambda>(n, key, _). (n, key)) ` set (impls od)) \<and>
      (operator_name s, dispatch_key kern) \<in> (\<lambda>(n, key, _). (n, key)) ` set (impls od) \<longrightarrow>
      checkSchemaAndRegisterOp options (ro, od)
        = Throws (ImplConflict (operator_name s) (dispatch_key kern))
            (ro\<lparr>op_registrars := op_registrars ro @ DefHandle (operator_name s) #
                   map (\<lambda>x. ImplHandle (operator_name s) (dispatch_key x)) pre\<rparr>,
             od\<lparr>defs := defs od @ [s],
                impls := impls od @
                  map (\<lambda>x. (operator_name s, dispatch_key x, func x)) pre\<rparr>))"
proof -
  have c1: "(\<forall>e st'. Library_def schema (lib, d) = Throws e st' \<longrightarrow> st' = (lib, d))"
    by (auto dest: Library_def_Throws)
  have c2: "(\<forall>e st'. Library_impl parseName name_str f (lib, d) = Throws e st' \<longrightarrow> st' = (lib, d))"
    by (auto dest: Library_impl_Throws)
  have c3: "(\<forall>e st'. Library_fallback f (lib, d) = Throws e st' \<longrightarrow> st' = (lib, d))"
    by (auto dest: Library_fallback_Throws)
  have c4: "(\<forall>e st'. Library_def_kernel name_or_schema f (lib, d) = Throws e st' \<and>
      (\<forall>opn k. e \<noteq> ImplConflict opn k) \<longrightarrow> st' = (lib, d))"
    using Library_def_kernel_other_error by blast
  have c5: "(\<forall>opn k lib' d'.
      Library_def_kernel name_or_schema f (lib, d) = Throws (ImplConflict opn k) (lib', d') \<longrightarrow>
      (\<exists>sch ns s.
         (name_or_schema = Inr sch \<or>
           (\<exists>nm fs. name_or_schema = Inl nm \<and> fn_schema f = Some fs \<and>
              sch = setAliasAnalysis CONSERVATIVE
                      (cloneWithName (name nm) (overload_name nm) fs))) \<and>
         lib_ns lib = Some ns \<and>
         s = sch\<lparr>operator_name :=
               (operator_name sch)\<lparr>name := ns @ ''::'' @ name (operator_name sch)\<rparr>\<rparr> \<and>
         operator_name s = opn \<and>
         k = (case fn_dispatch_key f of Some fk \<Rightarrow> Some fk | None \<Rightarrow> lib_dispatch_key lib) \<and>
         lib' = lib\<lparr>lib_registrars := lib_registrars lib @ [DefHandle opn]\<rparr> \<and>
         d' = d\<lparr>defs := defs d @ [s]\<rparr>))"
  proof (intro allI impI)
    fix opn k lib' d'
    assume "Library_def_kernel name_or_schema f (lib, d) = Throws (ImplConflict opn k) (lib', d')"
    from Library_def_kernel_ImplConflict[OF this]
    show "\<exists>sch ns s.
         (name_or_schema = Inr sch \<or>
           (\<exists>nm fs. name_or_schema = Inl nm \<and> fn_schema f = Some fs \<and>
              sch = setAliasAnalysis CONSERVATIVE
                      (cloneWithName (name nm) (overload_name nm) fs))) \<and>
         lib_ns lib = Some ns \<and>
         s = sch\<lparr>operator_name :=
               (operator_name sch)\<lparr>name := ns @ ''::'' @ name (operator_name sch)\<rparr>\<rparr> \<and>
         operator_name s = opn \<and>
         k = (case fn_dispatch_key f of Some fk \<Rightarrow> Some fk | None \<Rightarrow> lib_dispatch_key lib) \<and>
         lib' = lib\<lparr>lib_registrars := lib_registrars lib @ [DefHandle opn]\<rparr> \<and>
         d' = d\<lparr>defs := defs d @ [s]\<rparr>" .
  qed
  have c6: "(\<forall>sch opn k lib1 d1.
      (name_or_schema = Inr sch \<or>
          (\<exists>nm fs. name_or_schema = Inl nm \<and> fn_schema f = Some fs \<and>
             sch = setAliasAnalysis CONSERVATIVE
                     (cloneWithName (name nm) (overload_name nm) fs))) \<and>
      Library_def sch (lib, d) = Returns opn (lib1, d1) \<and>
      k = (case fn_dispatch_key f of Some fk \<Rightarrow> Some fk | None \<Rightarrow> lib_dispatch_key lib) \<and>
      (opn, k) \<in> (\<lambda>(n, key, _). (n, key)) ` set (impls d) \<longrightarrow>
      Library_def_kernel name_or_schema f (lib, d) = Throws (ImplConflict opn k) (lib1, d1) \<and>
      lib1 = lib\<lparr>lib_registrars := lib_registrars lib @ [DefHandle opn]\<rparr> \<and>
      (\<exists>s. operator_name s = opn \<and> d1 = d\<lparr>defs := defs d @ [s]\<rparr>))"
  proof (intro allI impI, elim conjE)
    fix sch opn k lib1 d1
    assume origin: "name_or_schema = Inr sch \<or>
          (\<exists>nm fs. name_or_schema = Inl nm \<and> fn_schema f = Some fs \<and>
             sch = setAliasAnalysis CONSERVATIVE
                     (cloneWithName (name nm) (overload_name nm) fs))"
      and def: "Library_def sch (lib, d) = Returns opn (lib1, d1)"
      and k: "k = (case fn_dispatch_key f of Some fk \<Rightarrow> Some fk | None \<Rightarrow> lib_dispatch_key lib)"
      and bound: "(opn, k) \<in> (\<lambda>(n, key, _). (n, key)) ` set (impls d)"
    show "Library_def_kernel name_or_schema f (lib, d) = Throws (ImplConflict opn k) (lib1, d1) \<and>
      lib1 = lib\<lparr>lib_registrars := lib_registrars lib @ [DefHandle opn]\<rparr> \<and>
      (\<exists>s. operator_name s = opn \<and> d1 = d\<lparr>defs := defs d @ [s]\<rparr>)"
      by (rule Library_def_kernel_refused_kernel[OF origin def k bound])
  qed
  have c7: "(\<forall>e st'. checkSchemaAndRegisterOp options (ro, od) = Throws e st' \<and>
      (\<forall>opn k. e \<noteq> ImplConflict opn k) \<longrightarrow> st' = (ro, od))"
    using checkSchemaAndRegisterOp_other_error by blast
  have c8: "(\<forall>opn k ro' od'.
      checkSchemaAndRegisterOp options (ro, od) = Throws (ImplConflict opn k) (ro', od') \<longrightarrow>
      (\<exists>sch s pre kern post.
         (schemaOrName options = Some (Inr sch) \<or>
          (\<exists>nm frag. schemaOrName options = Some (Inl nm) \<and>
             inferSchemaFromKernels nm options = Ok frag \<and>
             sch = FunctionSchema_new (name nm) (overload_name nm) (arguments frag)
                     (returns frag) (is_vararg frag) (is_varret frag))) \<and>
         s = (case aliasAnalysisKind options of
                Some a \<Rightarrow> setAliasAnalysis a sch | None \<Rightarrow> sch) \<and>
         operator_name s = opn \<and>
         kernels options = pre @ kern # post \<and> dispatch_key kern = k \<and>
         ro' = ro\<lparr>op_registrars := op_registrars ro @ DefHandle opn #
                    map (\<lambda>x. ImplHandle opn (dispatch_key x)) pre\<rparr> \<and>
         od' = od\<lparr>defs := defs od @ [s],
                  impls := impls od @ map (\<lambda>x. (opn, dispatch_key x, func x)) pre\<rparr>))"
  proof (intro allI impI)
    fix opn k ro' od'
    assume "checkSchemaAndRegisterOp options (ro, od) = Throws (ImplConflict opn k) (ro', od')"
    from checkSchemaAndRegisterOp_ImplConflict[OF this]
    show "\<exists>sch s pre kern post.
         (schemaOrName options = Some (Inr sch) \<or>
          (\<exists>nm frag. schemaOrName options = Some (Inl nm) \<and>
             inferSchemaFromKernels nm options = Ok frag \<and>
             sch = FunctionSchema_new (name nm) (overload_name nm) (arguments frag)
                     (returns frag) (is_vararg frag) (is_varret frag))) \<and>
         s = (case aliasAnalysisKind options of
                Some a \<Rightarrow> setAliasAnalysis a sch | None \<Rightarrow> sch) \<and>
         operator_name s = opn \<and>
         kernels options = pre @ kern # post \<and> dispatch_key kern = k \<and>
         ro' = ro\<lparr>op_registrars := op_registrars ro @ DefHandle opn #
                    map (\<lambda>x. ImplHandle opn (dispatch_key x)) pre\<rparr> \<and>
         od' = od\<lparr>defs := defs od @ [s],
                  impls := impls od @ map (\<lambda>x. (opn, dispatch_key x, func x)) pre\<rparr>" .
  qed
  have c9: "(\<forall>sch s pre kern post.
      (schemaOrName options = Some (Inr sch) \<or>
       (\<exists>nm frag. schemaOrName options = Some (Inl nm) \<and>
          inferSchemaFromKernels nm options = Ok frag \<and>
          aliasAnalysisKind options \<noteq> Some FROM_SCHEMA \<and>
          sch = FunctionSchema_new (name nm) (overload_name nm) (arguments frag)
                  (returns frag) (is_vararg frag) (is_varret frag))) \<and>
      s = (case aliasAnalysisKind options of
             Some a \<Rightarrow> setAliasAnalysis a sch | None \<Rightarrow> sch) \<and>
      checkNoDuplicateKernels options = Ok () \<and>
      operator_name s \<notin> operator_name ` set (defs od) \<and>
      kernels options = pre @ kern # post \<and>
      (\<forall>x \<in> set pre.
         (operator_name s, dispatch_key x) \<notin> (\<lambda>(n, key, _). (n, key)) ` set (impls od)) \<and>
      (operator_name s, dispatch_key kern) \<in> (\<lambda>(n, key, _). (n, key)) ` set (impls od) \<longrightarrow>
      checkSchemaAndRegisterOp options (ro, od)
        = Throws (ImplConflict (operator_name s) (dispatch_key kern))
            (ro\<lparr>op_registrars := op_registrars ro @ DefHandle (operator_name s) #
                   map (\<lambda>x. ImplHandle (operator_name s) (dispatch_key x)) pre\<rparr>,
             od\<lparr>defs := defs od @ [s],
                impls := impls od @
                  map (\<lambda>x. (operator_name s, dispatch_key x, func x)) pre\<rparr>))"
  proof (intro allI impI, elim conjE)
    fix sch s pre kern post
    assume origin: "schemaOrName options = Some (Inr sch) \<or>
       (\<exists>nm frag. schemaOrName options = Some (Inl nm) \<and>
          inferSchemaFromKernels nm options = Ok frag \<and>
          aliasAnalysisKind options \<noteq> Some FROM_SCHEMA \<and>
          sch = FunctionSchema_new (name nm) (overload_name nm) (arguments frag)
                  (returns frag) (is_vararg frag) (is_varret frag))"
      and s: "s = (case aliasAnalysisKind options of
             Some a \<Rightarrow> setAliasAnalysis a sch | None \<Rightarrow> sch)"
      and chk: "checkNoDuplicateKernels options = Ok ()"
      and new: "operator_name s \<notin> operator_name ` set (defs od)"
      and ks: "kernels options = pre @ kern # post"
      and fresh: "\<forall>x \<in> set pre.
         (operator_name s, dispatch_key x) \<notin> (\<lambda>(n, key, _). (n, key)) ` set (impls od)"
      and bound: "(operator_name s, dispatch_key kern) \<in> (\<lambda>(n, key, _). (n, key)) ` set (impls od)"
    show "checkSchemaAndRegisterOp options (ro, od)
        = Throws (ImplConflict (operator_name s) (dispatch_key kern))
            (ro\<lparr>op_registrars := op_registrars ro @ DefHandle (operator_name s) #
                   map (\<lambda>x. ImplHandle (operator_name s) (dispatch_key x)) pre\<rparr>,
             od\<lparr>defs := defs od @ [s],
                impls := impls od @
                  map (\<lambda>x. (operator_name s, dispatch_key x, func x)) pre\<rparr>)"
      by (rule checkSchemaAndRegisterOp_refused_kernel[OF origin s chk new ks fresh bound])
  qed
  from c1 c2 c3 c4 c5 c6 c7 c8 c9 show ?thesis by (intro conjI)
qed

theorem failed_operation_effects_witness:
  "Library_fallback (ex_fn (Some (Backend 1)) None)
     (ex_library DEF (Some ''mylib'') None, empty_Dispatcher)
     = Throws (Error (msg_fallback_wrong_block (ex_library DEF (Some ''mylib'') None)))
         (ex_library DEF (Some ''mylib'') None, empty_Dispatcher) \<and>
   Library_def_kernel (Inl \<lparr>name = ''add'', overload_name = []\<rparr>)
     (ex_fn (Some (Backend 1)) (Some ex_int_fragment))
     (ex_library FRAGMENT (Some ''mylib'') None, ex_bound_Dispatcher)
     = Throws (ImplConflict ex_mylib_add (Some (Backend 1)))
         ((ex_library FRAGMENT (Some ''mylib'') None)
            \<lparr>lib_registrars := lib_registrars (ex_library FRAGMENT (Some ''mylib'') None)
               @ [DefHandle ex_mylib_add]\<rparr>,
          ex_bound_Dispatcher\<lparr>defs := defs ex_bound_Dispatcher @ [ex_mylib_add_schema]\<rparr>) \<and>
   checkSchemaAndRegisterOp ex_conflict_options (ex_registrar, ex_bound_Dispatcher)
     = Throws (ImplConflict ex_mylib_add (Some (Backend 1)))
         (ex_registrar\<lparr>op_registrars := op_registrars ex_registrar @ DefHandle ex_mylib_add #
            map (\<lambda>x. ImplHandle ex_mylib_add (dispatch_key x)) [ex_kernel (Some (Backend 2)) None]\<rparr>,
          ex_bound_Dispatcher\<lparr>defs := defs ex_bound_Dispatcher @ [ex_mylib_add_schema],
            impls := impls ex_bound_Dispatcher @
              map (\<lambda>x. (ex_mylib_add, dispatch_key x, func x))
                [ex_kernel (Some (Backend 2)) None]\<rparr>)"
proof -
  note all = failed_operation_effects
    [where lib = "ex_library FRAGMENT (Some ''mylib'') None" and d = ex_bound_Dispatcher
       and f = "ex_fn (Some (Backend 1)) (Some ex_int_fragment)"
       and name_or_schema = "Inl \<lparr>name = ''add'', overload_name = []\<rparr>"
       and options = ex_conflict_options and ro = ex_registrar and od = ex_bound_Dispatcher]
  note fb = failed_operation_effects
    [where lib = "ex_library DEF (Some ''mylib'') None" and d = empty_Dispatcher
       and f = "ex_fn (Some (Backend 1)) None", THEN conjunct2, THEN conjunct2, THEN conjunct1,
     rule_format, OF ex_fallback_wrong_block]
  note dk = all[THEN conjunct2, THEN conjunct2, THEN conjunct2, THEN conjunct2, THEN conjunct2,
      THEN conjunct1, rule_format,
      where sch = "setAliasAnalysis CONSERVATIVE (cloneWithName ''add'' [] ex_int_fragment)"
        and opn = ex_mylib_add and k = "Some (Backend 1)"
        and ?lib1.0 = "(ex_library FRAGMENT (Some ''mylib'') None)
            \<lparr>lib_registrars := [DefHandle ex_mylib_add]\<rparr>"
        and ?d1.0 = "ex_bound_Dispatcher\<lparr>defs := [ex_mylib_add_schema]\<rparr>"]
  note bc = all[THEN conjunct2, THEN conjunct2, THEN conjunct2, THEN conjunct2, THEN conjunct2,
      THEN conjunct2, THEN conjunct2, THEN conjunct2, rule_format,
      where sch = ex_mylib_add_schema and s = ex_mylib_add_schema
        and pre = "[ex_kernel (Some (Backend 2)) None]"
        and kern = "ex_kernel (Some (Backend 1)) None" and post = "[]"]
  have def: "Library_def (setAliasAnalysis CONSERVATIVE (cloneWithName ''add'' [] ex_int_fragment))
      (ex_library FRAGMENT (Some ''mylib'') None, ex_bound_Dispatcher)
      = Returns ex_mylib_add
          ((ex_library FRAGMENT (Some ''mylib'') None)\<lparr>lib_registrars := [DefHandle ex_mylib_add]\<rparr>,
           ex_bound_Dispatcher\<lparr>defs := [ex_mylib_add_schema]\<rparr>)"
    by (simp add: Library_def_def schema_getNamespace_def getNamespace_def
        schema_setNamespaceIfNotSet_def setNamespaceIfNotSet_def cloneWithName_def
        setAliasAnalysis_def registerDef_def ex_defs)
  have chk: "checkNoDuplicateKernels ex_conflict_options = Ok ()"
    by (simp add: checkNoDuplicateKernels_def ex_defs)
  from dk def have w2: "Library_def_kernel (Inl \<lparr>name = ''add'', overload_name = []\<rparr>)
     (ex_fn (Some (Backend 1)) (Some ex_int_fragment))
     (ex_library FRAGMENT (Some ''mylib'') None, ex_bound_Dispatcher)
     = Throws (ImplConflict ex_mylib_add (Some (Backend 1)))
         ((ex_library FRAGMENT (Some ''mylib'') None)\<lparr>lib_registrars := [DefHandle ex_mylib_add]\<rparr>,
          ex_bound_Dispatcher\<lparr>defs := [ex_mylib_add_schema]\<rparr>)"
    by (simp add: ex_defs)
  from bc chk have w3: "checkSchemaAndRegisterOp ex_conflict_options (ex_registrar, ex_bound_Dispatcher)
     = Throws (ImplConflict ex_mylib_add (Some (Backend 1)))
         (ex_registrar\<lparr>op_registrars := op_registrars ex_registrar @ DefHandle ex_mylib_add #
            map (\<lambda>x. ImplHandle ex_mylib_add (dispatch_key x)) [ex_kernel (Some (Backend 2)) None]\<rparr>,
          ex_bound_Dispatcher\<lparr>defs := defs ex_bound_Dispatcher @ [ex_mylib_add_schema],
            impls := impls ex_bound_Dispatcher @
              map (\<lambda>x. (ex_mylib_add, dispatch_key x, func x))
                [ex_kernel (Some (Backend 2)) None]\<rparr>)"
    by (simp add: ex_defs)
  from fb ex_fallback_wrong_block w2 w3 show ?thesis by (simp add: ex_defs)
qed

section \<open>The namespace of a schema or operator name\<close>

text \<open>
  Claim C3 says that every \<^verbatim>\<open>_def\<close> on a definition or fragment session and every \<^verbatim>\<open>_impl\<close>
  fails with a configuration error, before the dispatcher is touched, when the schema or
  the parsed name carries a namespace ("redundant" when it equals the session's, a request
  to move the registration when it differs), and injects the session's namespace
  otherwise. \<open>Library_def_explicit_namespace\<close>, \<open>Library_def_inject_namespace\<close> and
  \<open>Library_impl_explicit_namespace\<close> above show this for a session that has a namespace.
  \<^verbatim>\<open>_impl\<close> in an implementation session for the wildcard namespace does not: the
  comparison of line 278 reads \<^verbatim>\<open>*ns_\<close> of the empty optional, which \<^verbatim>\<open>_def\<close> guards with
  the assertion of line 196 and \<^verbatim>\<open>_impl\<close> does not. The call below, with the name
  \<^verbatim>\<open>mylib::add\<close>, stops at that read and raises no configuration error.
\<close>

theorem bind_wildcard_session_reads_absent_namespace:
  "Library_impl ex_parseName ''mylib::add'' (ex_fn None None)
     (ex_library IMPL None (Some (Backend 1)), empty_Dispatcher)
   = Faults Deref_ns_compare"
  by (simp add: Library_impl_def getNamespace_def ex_library_def ex_parseName_def)

section \<open>The batch registrar: duplicate kernels\<close>

text \<open>
  Claim C4: when two kernels of a commit carry the same dispatch key, or more than one
  kernel carries none, the commit fails with a configuration error and the registrar and
  the dispatcher are as before, so no handle was produced; when the present keys are
  distinct and at most one kernel has no key, the duplicate check passes.
\<close>

theorem commit_duplicate_kernels:
  "(\<not> distinct (filter (\<lambda>x. x \<noteq> None) (map dispatch_key (kernels options))) \<or>
    1 < length (filter (\<lambda>x. x = None) (map dispatch_key (kernels options)))
      \<longrightarrow> (\<exists>msg. checkSchemaAndRegisterOp options st = Throws (Error msg) st)) \<and>
   (distinct (filter (\<lambda>x. x \<noteq> None) (map dispatch_key (kernels options))) \<and>
    length (filter (\<lambda>x. x = None) (map dispatch_key (kernels options))) \<le> 1
      \<longrightarrow> checkNoDuplicateKernels options = Ok ())"
proof (intro conjI impI)
  assume dup: "\<not> distinct (filter (\<lambda>x. x \<noteq> None) (map dispatch_key (kernels options))) \<or>
    1 < length (filter (\<lambda>x. x = None) (map dispatch_key (kernels options)))"
  have fails: "\<exists>msg. checkNoDuplicateKernels_loop (Some (Inr schema)) (kernels options) {} False
                 = Raise (Error msg)" for schema
    using checkNoDuplicateKernels_loop_right[of schema "kernels options" "{}" False]
      checkNoDuplicateKernels_loop_Ok[of "Some (Inr schema)" "kernels options" "{}" False] dup
    by auto
  show "\<exists>msg. checkSchemaAndRegisterOp options st = Throws (Error msg) st"
  proof (cases "schemaOrName options")
    case None
    then show ?thesis by (simp add: checkSchemaAndRegisterOp_def)
  next
    case (Some son)
    show ?thesis
    proof (cases son)
      case (Inr schema)
      with Some fails[of schema] show ?thesis
        by (auto simp: checkSchemaAndRegisterOp_def checkNoDuplicateKernels_def)
    next
      case (Inl opName)
      show ?thesis
      proof (cases "inferSchemaFromKernels opName options")
        case (Ok inferred)
        obtain msg where "checkNoDuplicateKernels_loop
            (Some (Inr (FunctionSchema_new (name opName) (overload_name opName)
               (arguments inferred) (returns inferred) (is_vararg inferred) (is_varret inferred))))
            (kernels options) {} False = Raise (Error msg)"
          using fails by blast
        with Some Inl Ok show ?thesis
          by (simp add: checkSchemaAndRegisterOp_def checkNoDuplicateKernels_def Let_def)
      next
        case (Raise e)
        then obtain msg where "e = Error msg"
          by (auto simp: inferSchemaFromKernels_def split: if_splits option.splits)
        with Some Inl Raise show ?thesis by (simp add: checkSchemaAndRegisterOp_def)
      next
        case (Fault x)
        then show ?thesis
          by (auto simp: inferSchemaFromKernels_def split: if_splits option.splits)
      qed
    qed
  qed
next
  assume "distinct (filter (\<lambda>x. x \<noteq> None) (map dispatch_key (kernels options))) \<and>
    length (filter (\<lambda>x. x = None) (map dispatch_key (kernels options))) \<le> 1"
  then show "checkNoDuplicateKernels options = Ok ()"
    using checkNoDuplicateKernels_loop_Ok[of "schemaOrName options" "kernels options" "{}" False]
    by (simp add: checkNoDuplicateKernels_def)
qed

theorem commit_duplicate_kernels_witness:
  "(\<exists>msg. checkSchemaAndRegisterOp
       \<lparr>schemaOrName = Some (Inr ex_schema),
        kernels = [ex_kernel (Some (Backend 1)) None, ex_kernel (Some (Backend 1)) None],
        aliasAnalysisKind = None\<rparr> (ex_registrar, empty_Dispatcher)
     = Throws (Error msg) (ex_registrar, empty_Dispatcher)) \<and>
   checkNoDuplicateKernels
       \<lparr>schemaOrName = Some (Inr ex_schema),
        kernels = [ex_kernel (Some (Backend 1)) None, ex_kernel (Some (Backend 2)) None],
        aliasAnalysisKind = None\<rparr> = Ok ()"
  using commit_duplicate_kernels [of "\<lparr>schemaOrName = Some (Inr ex_schema),
        kernels = [ex_kernel (Some (Backend 1)) None, ex_kernel (Some (Backend 1)) None],
        aliasAnalysisKind = None\<rparr>" "(ex_registrar, empty_Dispatcher)"]
    commit_duplicate_kernels [of "\<lparr>schemaOrName = Some (Inr ex_schema),
        kernels = [ex_kernel (Some (Backend 1)) None, ex_kernel (Some (Backend 2)) None],
        aliasAnalysisKind = None\<rparr>" "(ex_registrar, empty_Dispatcher)"]
  by (simp add: ex_kernel_def)

section \<open>The batch registrar: the inferred schema\<close>

text \<open>
  Claim C5: in a commit with an operator name, no explicit schema and at least one kernel,
  the commit fails with the configuration error that names the operator when no kernel
  has an inferred schema. Otherwise the schema handed to \<^verbatim>\<open>registerOp_\<close> is built from the
  supplied name and the arguments, returns and variadic flags of the first kernel, in list
  order, that has an inferred schema, whatever the later kernels carry; when the commit
  returns, the definition added to the dispatcher is that schema, with the alias analysis
  of the options, and the handles appended are the definition's and one per kernel.
\<close>

theorem commit_inferred_schema:
  assumes "schemaOrName options = Some (Inl opName)"
      and "kernels options \<noteq> []"
  shows "((\<forall>k \<in> set (kernels options). inferred_function_schema k = None) \<longrightarrow>
            checkSchemaAndRegisterOp options (ro, d)
              = Throws (Error (msg_cannot_infer opName)) (ro, d)) \<and>
         (kernels options = pre @ k # post \<and>
          (\<forall>p \<in> set pre. inferred_function_schema p = None) \<and>
          inferred_function_schema k = Some frag \<longrightarrow>
            (checkNoDuplicateKernels options = Ok () \<and>
             aliasAnalysisKind options \<noteq> Some FROM_SCHEMA \<longrightarrow>
               checkSchemaAndRegisterOp options (ro, d)
                 = registerOp
                     (options\<lparr>schemaOrName := Some (Inr
                        \<lparr>operator_name = opName, arguments = arguments frag,
                         returns = returns frag, is_vararg = is_vararg frag,
                         is_varret = is_varret frag, aliasAnalysis = None\<rparr>)\<rparr>) (ro, d)) \<and>
            (checkSchemaAndRegisterOp options (ro, d) = Returns v (ro', d') \<longrightarrow>
               defs d' = defs d @
                 [\<lparr>operator_name = opName, arguments = arguments frag,
                   returns = returns frag, is_vararg = is_vararg frag,
                   is_varret = is_varret frag, aliasAnalysis = aliasAnalysisKind options\<rparr>] \<and>
               op_registrars ro' = op_registrars ro @ DefHandle opName #
                 map (\<lambda>k. ImplHandle opName (dispatch_key k)) (kernels options)))"
proof (intro conjI impI)
  assume "\<forall>k \<in> set (kernels options). inferred_function_schema k = None"
  then have "inferSchemaFromKernels_loop (kernels options) None = None"
    by (rule inferSchemaFromKernels_loop_none)
  with assms show "checkSchemaAndRegisterOp options (ro, d)
      = Throws (Error (msg_cannot_infer opName)) (ro, d)"
    by (simp add: checkSchemaAndRegisterOp_def inferSchemaFromKernels_def)
next
  assume first: "kernels options = pre @ k # post \<and>
          (\<forall>p \<in> set pre. inferred_function_schema p = None) \<and>
          inferred_function_schema k = Some frag"
  let ?graft = "\<lparr>operator_name = opName, arguments = arguments frag,
                         returns = returns frag, is_vararg = is_vararg frag,
                         is_varret = is_varret frag, aliasAnalysis = None\<rparr>"
  let ?options' = "options\<lparr>schemaOrName := Some (Inr ?graft)\<rparr>"
  from first have "inferSchemaFromKernels_loop (kernels options) None = Some frag"
    by (simp add: inferSchemaFromKernels_loop_first)
  with assms have inf: "inferSchemaFromKernels opName options = Ok frag"
    by (simp add: inferSchemaFromKernels_def)
  have new: "FunctionSchema_new (name opName) (overload_name opName)
        (arguments frag) (returns frag) (is_vararg frag) (is_varret frag) = ?graft"
    by (simp add: FunctionSchema_new_def)
  have unfold: "checkSchemaAndRegisterOp options (ro, d) =
      (case checkNoDuplicateKernels ?options' of
         Raise e \<Rightarrow> Throws e (ro, d)
       | Fault x \<Rightarrow> Faults x
       | Ok _ \<Rightarrow>
           (if aliasAnalysisKind options = Some FROM_SCHEMA
            then Throws (Error (msg_from_schema_inferred ?graft)) (ro, d)
            else registerOp ?options' (ro, d)))"
    using assms(1) inf by (simp add: checkSchemaAndRegisterOp_def new Let_def)
  {
    assume "checkNoDuplicateKernels options = Ok () \<and>
             aliasAnalysisKind options \<noteq> Some FROM_SCHEMA"
    then show "checkSchemaAndRegisterOp options (ro, d) = registerOp ?options' (ro, d)"
      using unfold checkNoDuplicateKernels_son[of options "Some (Inr ?graft)"] by simp
  }
  {
    assume ret: "checkSchemaAndRegisterOp options (ro, d) = Returns v (ro', d')"
    then have "registerOp ?options' (ro, d) = Returns v (ro', d')"
      using unfold by (auto split: result.splits if_splits)
    from registerOp_Returns[OF this, of ?graft]
    show "defs d' = defs d @
                 [\<lparr>operator_name = opName, arguments = arguments frag,
                   returns = returns frag, is_vararg = is_vararg frag,
                   is_varret = is_varret frag, aliasAnalysis = aliasAnalysisKind options\<rparr>]"
      and "op_registrars ro' = op_registrars ro @ DefHandle opName #
                 map (\<lambda>k. ImplHandle opName (dispatch_key k)) (kernels options)"
      by (cases "aliasAnalysisKind options"; simp)+
  }
qed

theorem commit_inferred_schema_witness:
  "\<exists>ro' d'. checkSchemaAndRegisterOp ex_inferred_options (ex_registrar, empty_Dispatcher)
               = Returns () (ro', d') \<and>
             defs d' = [ex_schema] \<and>
             op_registrars ro' = [DefHandle ex_op, ImplHandle ex_op (Some (Backend 1)),
                                  ImplHandle ex_op (Some (Backend 2)), ImplHandle ex_op None]"
proof -
  have opts: "schemaOrName ex_inferred_options = Some (Inl ex_op)"
    "kernels ex_inferred_options \<noteq> []"
    by (simp_all add: ex_inferred_options_def)
  have first: "kernels ex_inferred_options
      = [ex_kernel (Some (Backend 1)) None] @ ex_kernel (Some (Backend 2)) (Some ex_int_fragment)
          # [ex_kernel None (Some ex_float_fragment)] \<and>
      (\<forall>p \<in> set [ex_kernel (Some (Backend 1)) None]. inferred_function_schema p = None) \<and>
      inferred_function_schema (ex_kernel (Some (Backend 2)) (Some ex_int_fragment))
        = Some ex_int_fragment"
    by (simp add: ex_inferred_options_def ex_kernel_def)
  from commit_inferred_schema[OF opts, THEN conjunct2, rule_format, OF first,
      THEN conjunct2, rule_format, OF ex_commit_inferred]
  have "defs \<lparr>libraries = [], defs = [ex_schema],
            impls = [(ex_op, Some (Backend 1), KernelFunction 0),
                     (ex_op, Some (Backend 2), KernelFunction 0),
                     (ex_op, None, KernelFunction 0)],
            fallbacks = []\<rparr> = [ex_schema]"
    by (simp add: ex_defs)
  with ex_commit_inferred show ?thesis by simp
qed

section \<open>The fallback of a session\<close>

text \<open>
  Claim C6 says that \<^verbatim>\<open>_fallback\<close> fails with a configuration error for every implementation
  session with a concrete namespace, and with an internal invariant violation when neither
  the kernel nor the session has a dispatch key. The assertion on the dispatch key
  (line 327) runs before the namespace check (line 328), whose message prints the key: an
  implementation session for \<^verbatim>\<open>mylib\<close> with no dispatch key on either side fails the
  assertion, not the configuration check.
\<close>

theorem fallback_concrete_namespace_without_key:
  "Library_fallback (ex_fn None None)
     (ex_library IMPL (Some ''mylib'') None, empty_Dispatcher)
   = Throws (InternalAssert (ERROR_CONTEXT (ex_library IMPL (Some ''mylib'') None)))
       (ex_library IMPL (Some ''mylib'') None, empty_Dispatcher)"
  by (simp add: Library_fallback_def ex_library_def ex_fn_def)

text \<open>
  Claim C6, amended: \<^verbatim>\<open>_fallback\<close> fails with a configuration error in every session that
  is not an implementation session. In an implementation session it fails with an
  internal invariant violation when neither the kernel nor the session has a dispatch key,
  whatever the namespace; with a dispatch key resolved (the kernel's, else the session's)
  it fails with the configuration error that points to the wildcard block when the
  namespace is concrete, and with the wildcard namespace it registers one fallback for
  that key and appends one handle.
\<close>

theorem fallback_outcomes:
  "(lib_kind lib \<noteq> IMPL \<longrightarrow>
      Library_fallback f (lib, d) = Throws (Error (msg_fallback_wrong_block lib)) (lib, d)) \<and>
   (lib_kind lib = IMPL \<and> fn_dispatch_key f = None \<and> lib_dispatch_key lib = None \<longrightarrow>
      Library_fallback f (lib, d) = Throws (InternalAssert (ERROR_CONTEXT lib)) (lib, d)) \<and>
   (lib_kind lib = IMPL \<and>
    (case fn_dispatch_key f of Some fk \<Rightarrow> Some fk | None \<Rightarrow> lib_dispatch_key lib) = Some k \<longrightarrow>
      (lib_ns lib = Some ns \<longrightarrow>
         Library_fallback f (lib, d) = Throws (Error (msg_fallback_namespace lib ns k)) (lib, d)) \<and>
      (lib_ns lib = None \<longrightarrow>
         Library_fallback f (lib, d)
           = Returns () (lib\<lparr>lib_registrars := lib_registrars lib @ [FallbackHandle k]\<rparr>,
                         d\<lparr>fallbacks := fallbacks d @ [(k, fn_func f)]\<rparr>)))"
  by (auto simp: Library_fallback_def registerFallback_def Let_def split: option.splits)

theorem fallback_outcomes_witness:
  "Library_fallback (ex_fn None None) (ex_library DEF (Some ''mylib'') None, empty_Dispatcher)
     = Throws (Error (msg_fallback_wrong_block (ex_library DEF (Some ''mylib'') None)))
         (ex_library DEF (Some ''mylib'') None, empty_Dispatcher) \<and>
   Library_fallback (ex_fn None None) (ex_library IMPL None None, empty_Dispatcher)
     = Throws (InternalAssert (ERROR_CONTEXT (ex_library IMPL None None)))
         (ex_library IMPL None None, empty_Dispatcher) \<and>
   Library_fallback (ex_fn None None)
       (ex_library IMPL (Some ''mylib'') (Some (Backend 1)), empty_Dispatcher)
     = Throws (Error (msg_fallback_namespace (ex_library IMPL (Some ''mylib'') (Some (Backend 1)))
                 ''mylib'' (Backend 1)))
         (ex_library IMPL (Some ''mylib'') (Some (Backend 1)), empty_Dispatcher) \<and>
   Library_fallback (ex_fn None None) (ex_library IMPL None (Some (Backend 1)), empty_Dispatcher)
     = Returns ()
         ((ex_library IMPL None (Some (Backend 1)))\<lparr>lib_registrars := [FallbackHandle (Backend 1)]\<rparr>,
          empty_Dispatcher\<lparr>fallbacks := [(Backend 1, KernelFunction 0)]\<rparr>)"
  using fallback_outcomes
      [of "ex_library DEF (Some ''mylib'') None" "ex_fn None None" empty_Dispatcher]
    fallback_outcomes [of "ex_library IMPL None None" "ex_fn None None" empty_Dispatcher]
    fallback_outcomes [of "ex_library IMPL (Some ''mylib'') (Some (Backend 1))" "ex_fn None None"
      empty_Dispatcher "Backend 1" "''mylib''"]
    fallback_outcomes [of "ex_library IMPL None (Some (Backend 1))" "ex_fn None None"
      empty_Dispatcher "Backend 1"]
  by (simp add: ex_library_def ex_fn_def empty_Dispatcher_def)

section \<open>The dispatch key of a bound kernel\<close>

text \<open>
  Claim C7 says that every \<^verbatim>\<open>_impl\<close> with a dispatch key on both the kernel and the session
  fails with the configuration error that asks for a separate block. The namespace step
  comes first (lines 277 to 298): with the name \<^verbatim>\<open>mylib::add\<close> in a session for \<^verbatim>\<open>mylib\<close>
  and a key on both sides, the error is the one about the redundant namespace, which is
  not the message about the dispatch keys.
\<close>

theorem bind_explicit_namespace_before_keys:
  "Library_impl ex_parseName ''mylib::add'' (ex_fn (Some (Backend 2)) None)
     (ex_library IMPL (Some ''mylib'') (Some (Backend 1)), empty_Dispatcher)
   = Throws (Error (msg_impl_redundant_namespace
                      (ex_library IMPL (Some ''mylib'') (Some (Backend 1))) ''mylib::add'' ''mylib''))
       (ex_library IMPL (Some ''mylib'') (Some (Backend 1)), empty_Dispatcher) \<and>
   msg_impl_redundant_namespace
       (ex_library IMPL (Some ''mylib'') (Some (Backend 1))) ''mylib::add'' ''mylib''
     \<noteq> msg_impl_inconsistent_key
         (ex_library IMPL (Some ''mylib'') (Some (Backend 1))) ''mylib::add'' (Backend 2) (Backend 1)"
  by (simp add: Library_impl_def getNamespace_def ex_library_def ex_parseName_def
      msg_impl_redundant_namespace_def msg_impl_inconsistent_key_def)

text \<open>
  Claim C7, amended: for every \<^verbatim>\<open>_impl\<close> whose parsed name carries no namespace, in a session
  that has one: with a dispatch key on both the kernel and the session the call fails with
  the configuration error that asks for a separate block, and the session and dispatcher
  are unchanged; otherwise the kernel is registered for the name with the session's
  namespace injected, under the kernel's key when present, else the session's key, else no
  key (catch-all), unless the dispatcher already has a kernel for that name and key.
\<close>

theorem bind_dispatch_key:
  assumes "parseName name_str = Inr opn"
      and "getNamespace opn = None"
      and "lib_ns lib = Some ns"
  shows "(fn_dispatch_key f = Some fk \<and> lib_dispatch_key lib = Some lk \<longrightarrow>
            Library_impl parseName name_str f (lib, d)
              = Throws (Error (msg_impl_inconsistent_key lib name_str fk lk)) (lib, d)) \<and>
         (\<not> (fn_dispatch_key f \<noteq> None \<and> lib_dispatch_key lib \<noteq> None) \<and>
          eff = (case fn_dispatch_key f of Some fk \<Rightarrow> Some fk | None \<Rightarrow> lib_dispatch_key lib) \<and>
          opn' = opn\<lparr>name := ns @ ''::'' @ name opn\<rparr> \<longrightarrow>
            Library_impl parseName name_str f (lib, d)
              = (if (opn', eff) \<in> (\<lambda>(n, key, _). (n, key)) ` set (impls d)
                 then Throws (ImplConflict opn' eff) (lib, d)
                 else Returns ()
                        (lib\<lparr>lib_registrars := lib_registrars lib @ [ImplHandle opn' eff]\<rparr>,
                         d\<lparr>impls := impls d @ [(opn', eff, fn_func f)]\<rparr>)))"
  using assms
  by (auto simp: Library_impl_def setNamespaceIfNotSet_def registerImpl_def Let_def
      split: option.splits)

theorem bind_dispatch_key_witness:
  "Library_impl ex_parseName ''add'' (ex_fn (Some (Backend 2)) None)
     (ex_library IMPL (Some ''mylib'') (Some (Backend 1)), empty_Dispatcher)
     = Throws (Error (msg_impl_inconsistent_key
                        (ex_library IMPL (Some ''mylib'') (Some (Backend 1))) ''add''
                        (Backend 2) (Backend 1)))
         (ex_library IMPL (Some ''mylib'') (Some (Backend 1)), empty_Dispatcher) \<and>
   Library_impl ex_parseName ''add'' (ex_fn None None)
     (ex_library IMPL (Some ''mylib'') (Some (Backend 1)), empty_Dispatcher)
     = Returns ()
         ((ex_library IMPL (Some ''mylib'') (Some (Backend 1)))
            \<lparr>lib_registrars := [ImplHandle ex_mylib_add (Some (Backend 1))]\<rparr>,
          empty_Dispatcher\<lparr>impls := [(ex_mylib_add, Some (Backend 1), KernelFunction 0)]\<rparr>)"
  using bind_dispatch_key
      [where parseName = ex_parseName and name_str = "''add''"
         and opn = "\<lparr>name = ''add'', overload_name = []\<rparr>"
         and lib = "ex_library IMPL (Some ''mylib'') (Some (Backend 1))" and ns = "''mylib''"
         and f = "ex_fn (Some (Backend 2)) None" and fk = "Backend 2" and lk = "Backend 1"
         and d = empty_Dispatcher]
    bind_dispatch_key
      [where parseName = ex_parseName and name_str = "''add''"
         and opn = "\<lparr>name = ''add'', overload_name = []\<rparr>"
         and lib = "ex_library IMPL (Some ''mylib'') (Some (Backend 1))" and ns = "''mylib''"
         and f = "ex_fn None None" and eff = "Some (Backend 1)" and opn' = ex_mylib_add
         and d = empty_Dispatcher]
  by (simp add: ex_parseName_def getNamespace_def ex_library_def ex_fn_def ex_mylib_add_def
      empty_Dispatcher_def)

section \<open>Construction of a session\<close>

text \<open>
  Claim C8 says that construction normalises the namespace \<^verbatim>\<open>_\<close> and the catch-all key to
  absent, that a definition or fragment session is then refused when the namespace is
  absent or a dispatch key is present, that an implementation session is built with no
  further check, and that a definition session reserves its namespace and keeps the
  handle. \<open>Library_Library_IMPL\<close>, \<open>Library_Library_FRAGMENT\<close> and \<open>Library_Library_DEF\<close>
  above show all of this but one case. For the kind \<^verbatim>\<open>DEF\<close> the call of
  \<^verbatim>\<open>registerLibrary\<close> reads \<^verbatim>\<open>*ns_\<close> (line 165) before the check \<^verbatim>\<open>ns_.has_value()\<close> of line
  171, which the case falls through to: a definition session for \<^verbatim>\<open>_\<close> stops at the read
  of the empty optional and is not refused by the check.
\<close>

theorem definition_session_wildcard_faults:
  "Library_Library DEF ''_'' None ''ops.cpp'' 7 empty_Dispatcher = Faults Deref_ns_registerLibrary"
  by (simp add: Library_Library_def)

text \<open>
  Claim C9: in the construction of a definition session the reservation of the namespace
  reads the session's namespace before the wildcard check runs. A definition session for
  \<^verbatim>\<open>_\<close> therefore reads the empty optional and does not fail with the configuration error
  "cannot define with the wildcard namespace"; whenever the constructor throws a
  configuration error the kind is \<^verbatim>\<open>FRAGMENT\<close> and the namespace \<^verbatim>\<open>_\<close>, and for that kind
  and namespace it does throw it.
\<close>

theorem wildcard_error_only_for_fragment:
  "Library_Library DEF ''_'' k file line d = Faults Deref_ns_registerLibrary \<and>
   (\<forall>m d'. Library_Library kind ns k file line d = Throws (Error m) d' \<longrightarrow>
      kind = FRAGMENT \<and> ns = ''_'') \<and>
   Library_Library FRAGMENT ''_'' k file line d
     = Throws (Error (msg_wildcard_namespace
                 \<lparr>lib_kind = FRAGMENT, lib_ns = None,
                  lib_dispatch_key = (if k = None \<or> k = Some CatchAll then None else k),
                  lib_file = file, lib_line = line, lib_registrars = []\<rparr>)) d"
  by (auto simp: Library_Library_def Library_case_FRAGMENT_def release_all_def registerLibrary_def
      Let_def split: Kind.splits if_splits)

theorem wildcard_error_only_for_fragment_witness:
  "Library_Library FRAGMENT ''_'' None ''ops.cpp'' 7 empty_Dispatcher
     = Throws (Error (msg_wildcard_namespace (ex_library FRAGMENT None None))) empty_Dispatcher \<and>
   Library_Library DEF ''_'' None ''ops.cpp'' 7 empty_Dispatcher \<noteq>
     Throws (Error (msg_wildcard_namespace (ex_library DEF None None))) empty_Dispatcher"
  using wildcard_error_only_for_fragment [of None "''ops.cpp''" 7 empty_Dispatcher FRAGMENT "''_''"]
    wildcard_error_only_for_fragment [of None "''ops.cpp''" 7 empty_Dispatcher DEF "''_''"]
  by (simp add: ex_library_def)

section \<open>Binding in a session for the wildcard namespace\<close>

text \<open>
  Claim C10: for every \<^verbatim>\<open>_impl\<close> in a session whose namespace is absent (an implementation
  session for the wildcard namespace \<^verbatim>\<open>_\<close>), when the parsed name carries no namespace
  the injection step of line 296 reads the session's absent namespace, and the names
  that do not reach this read are exactly those that carry a namespace. (Such a name stops
  earlier, at the comparison of line 278: \<open>Library_impl_wildcard\<close>.)
\<close>

theorem bind_wildcard_session_injection_read:
  assumes "lib_ns lib = None" and "parseName name_str = Inr opn"
  shows "(getNamespace opn = None \<longrightarrow>
            Library_impl parseName name_str f (lib, d) = Faults Deref_ns_inject) \<and>
         (Library_impl parseName name_str f (lib, d) = Faults Deref_ns_inject \<longrightarrow>
            getNamespace opn = None)"
  using assms Library_impl_wildcard
      [where lib = lib and parseName = parseName and name_str = name_str and opn = opn
         and f = f and d = d]
  by (simp split: if_splits)

theorem bind_wildcard_session_injection_read_witness:
  "Library_impl ex_parseName ''add'' (ex_fn None None)
     (ex_library IMPL None (Some (Backend 1)), empty_Dispatcher) = Faults Deref_ns_inject \<and>
   Library_impl ex_parseName ''aten::add'' (ex_fn None None)
     (ex_library IMPL None (Some (Backend 1)), empty_Dispatcher) \<noteq> Faults Deref_ns_inject"
  using bind_wildcard_session_injection_read
      [where lib = "ex_library IMPL None (Some (Backend 1))" and parseName = ex_parseName
         and name_str = "''add''" and opn = "\<lparr>name = ''add'', overload_name = []\<rparr>"
         and f = "ex_fn None None" and d = empty_Dispatcher]
    bind_wildcard_session_injection_read
      [where lib = "ex_library IMPL None (Some (Backend 1))" and parseName = ex_parseName
         and name_str = "''aten::add''" and opn = "\<lparr>name = ''aten::add'', overload_name = []\<rparr>"
         and f = "ex_fn None None" and d = empty_Dispatcher]
  by (simp add: ex_library_def ex_parseName_def getNamespace_def)

end
